theory Spec2Isabelle
  imports
    Complex_Main
    "HOL-Library.Product_Lexorder"
    "HOL-Library.Option_ord"
    "HOL-Library.Char_ord"
    "HOL-Library.List_Lexorder"
begin

section \<open>The relational store\<close>

text \<open>
  The program is a set of SQL statements sent to a MySQL server through
  \<^verbatim>\<open>DatabaseConnection.execute_query\<close> and \<^verbatim>\<open>execute_procedure\<close> (models.py), and
  the request handlers of app.py around them. A table is a list of rows, a row a record
  of the columns the statements name. A nullable column is an \<open>option\<close> (\<open>None\<close> is SQL
  NULL). Identifiers are Python and SQL integers (\<open>int\<close>). Scores and preference weights
  are exact decimals (\<open>rat\<close>): the finite precision in which the engine keeps the result
  of \<^verbatim>\<open>AVG\<close> is not modelled. Columns that the statements only carry through
  (descriptions, timestamps and the like) are left out of the rows.
\<close>

record movie_row =
  Movie_ID :: int
  Title :: string
  Year :: int

record show_row =
  Show_ID :: int
  s_Title :: string
  s_Year :: int

record review_row =
  Review_ID :: int
  r_User_ID :: int
  r_Movie_ID :: "int option"
  r_Show_ID :: "int option"
  Score :: rat
  r_Title :: string
  Content :: "string option"

record friends_row =
  User_ID1 :: int
  User_ID2 :: int

record user_preferences_row =
  up_User_ID :: int
  up_Genre_ID :: int
  Preference_Score :: rat

record movie_genre_row =
  mg_Movie_ID :: int
  mg_Genre_ID :: int

record user_row =
  User_ID :: int
  Name :: string
  Email :: string
  PasswordHash :: string
  Role :: string

record database =
  Movie :: "movie_row list"
  TV_Show :: "show_row list"
  Reviews :: "review_row list"
  Friends :: "friends_row list"
  User_Preferences :: "user_preferences_row list"
  Movie_Genre :: "movie_genre_row list"
  User :: "user_row list"

subsection \<open>Joins and aggregates\<close>

text \<open>
  \<^verbatim>\<open>A LEFT JOIN B ON c\<close>: every row of A is paired with each matching row of B, and with
  one all-NULL row when none matches.
\<close>

definition left_join :: "'a list \<Rightarrow> 'a option list" where
  "left_join xs = (if xs = [] then [None] else map Some xs)"

text \<open>The non-NULL values of a column over the rows of a group.\<close>

definition non_null :: "'a option list \<Rightarrow> 'a list" where
  "non_null xs = List.map_filter (\<lambda>x. x) xs"

text \<open>\<^verbatim>\<open>COUNT(col)\<close> counts the rows where the column is not NULL.\<close>

definition COUNT :: "'a option list \<Rightarrow> nat" where
  "COUNT xs = length (non_null xs)"

text \<open>\<^verbatim>\<open>AVG(col)\<close> is NULL when no row has a value, the mean of the values otherwise.\<close>

definition AVG :: "rat option list \<Rightarrow> rat option" where
  "AVG xs = (let vs = non_null xs in
     if vs = [] then None else Some (sum_list vs / of_nat (length vs)))"

text \<open>\<^verbatim>\<open>MAX(col)\<close> is NULL when no row has a value.\<close>

definition MAX_of :: "rat option list \<Rightarrow> rat option" where
  "MAX_of xs = (case non_null xs of [] \<Rightarrow> None | v # vs \<Rightarrow> Some (fold max vs v))"

definition COALESCE :: "'a option \<Rightarrow> 'a \<Rightarrow> 'a" where
  "COALESCE x d = (case x of None \<Rightarrow> d | Some v \<Rightarrow> v)"

text \<open>
  \<^verbatim>\<open>ROUND(x, 2)\<close> on an exact decimal rounds half away from zero; NULL stays NULL.
\<close>

definition round2 :: "rat \<Rightarrow> rat" where
  "round2 x = (if 0 \<le> x then of_int \<lfloor>x * 100 + 1 / 2\<rfloor> / 100
               else - (of_int \<lfloor>- x * 100 + 1 / 2\<rfloor> / 100))"

definition ROUND2 :: "rat option \<Rightarrow> rat option" where
  "ROUND2 x = map_option round2 x"

text \<open>
  \<^verbatim>\<open>ORDER BY k DESC\<close>: the rows in descending order of the key, NULL last (\<open>None\<close> is
  the least element of an \<open>option\<close>). SQL leaves the order of rows with equal keys open;
  the model fixes one such order.
\<close>

definition order_by_desc :: "('a \<Rightarrow> 'k::linorder) \<Rightarrow> 'a list \<Rightarrow> 'a list" where
  "order_by_desc k rows = rev (sort_key k rows)"

text \<open>
  \<^verbatim>\<open>LIMIT n\<close> with the caller's integer: a negative count is a syntax error of the
  statement, which \<^verbatim>\<open>execute_query\<close> re-raises.
\<close>

datatype db_error = Error

definition LIMIT :: "int \<Rightarrow> 'a list \<Rightarrow> db_error + 'a list" where
  "LIMIT n rows = (if n < 0 then Inl Error else Inr (take (nat n) rows))"

section \<open>Friendship\<close>

text \<open>
  \<^verbatim>\<open>Friendship.are_friends\<close>: \<^verbatim>\<open>SELECT COUNT(*) FROM Friends WHERE (User_ID1 = a AND
  User_ID2 = b) OR (User_ID1 = b AND User_ID2 = a)\<close>, then \<^verbatim>\<open>results[0]['are_friends'] > 0\<close>.
\<close>

definition are_friends_count :: "database \<Rightarrow> int \<Rightarrow> int \<Rightarrow> nat" where
  "are_friends_count db user1_id user2_id =
     length [f \<leftarrow> Friends db.
       (User_ID1 f = user1_id \<and> User_ID2 f = user2_id) \<or>
       (User_ID1 f = user2_id \<and> User_ID2 f = user1_id)]"

definition are_friends :: "database \<Rightarrow> int \<Rightarrow> int \<Rightarrow> bool" where
  "are_friends db user1_id user2_id = (are_friends_count db user1_id user2_id > 0)"

section \<open>Aggregated movie rows\<close>

text \<open>
  The listing and recommendation statements select the columns of \<^verbatim>\<open>Movie\<close> and add
  \<^verbatim>\<open>COUNT(r.Review_ID) as review_count\<close> and \<^verbatim>\<open>ROUND(AVG(r.Score), 2) as avg_rating\<close>,
  computed over the rows of the group. \<^verbatim>\<open>Movie_ID\<close> is the primary key of
  \<^verbatim>\<open>Movie\<close>, so every group of \<^verbatim>\<open>GROUP BY m.Movie_ID, ...\<close> comes from one row of
  \<^verbatim>\<open>Movie\<close>: a statement is evaluated row by row of \<^verbatim>\<open>Movie\<close>, and \<^verbatim>\<open>SELECT DISTINCT\<close>
  over such groups removes nothing.
\<close>

record rated_movie_row = movie_row +
  review_count :: nat
  avg_rating :: "rat option"

record recommendation_row = rated_movie_row +
  max_preference_score :: rat

record friend_recommendation_row = rated_movie_row +
  friend_likes :: nat
  content_type :: string


text \<open>
  The sub-select shared by both recommendation statements:
  \<^verbatim>\<open>SELECT Movie_ID FROM Reviews WHERE User_ID = %s AND Movie_ID IS NOT NULL\<close>.
\<close>

definition reviewed_movie_ids :: "database \<Rightarrow> int \<Rightarrow> int list" where
  "reviewed_movie_ids db user_id =
     List.map_filter (\<lambda>r. if r_User_ID r = user_id then r_Movie_ID r else None) (Reviews db)"

text \<open>\<^verbatim>\<open>SELECT mg.Genre_ID FROM Movie_Genre mg WHERE mg.Movie_ID = m.Movie_ID\<close>.\<close>

definition movie_genre_ids :: "database \<Rightarrow> int \<Rightarrow> int list" where
  "movie_genre_ids db movie_id =
     map mg_Genre_ID [mg \<leftarrow> Movie_Genre db. mg_Movie_ID mg = movie_id]"

section \<open>Recommendation.get\_movie\_recommendations\<close>

text \<open>
  \<^verbatim>\<open>FROM Movie m LEFT JOIN Reviews r ON m.Movie_ID = r.Movie_ID
  LEFT JOIN User_Preferences up ON up.Genre_ID IN (...) AND up.User_ID = %s\<close>:
  the joined rows of one movie. The condition of the second join does not mention
  \<^verbatim>\<open>r\<close>, so every review row (or the NULL row) is paired with every matching
  preference row (or the NULL row).
\<close>

definition recommendation_join ::
  "database \<Rightarrow> int \<Rightarrow> movie_row \<Rightarrow> (review_row option \<times> user_preferences_row option) list" where
  "recommendation_join db user_id m =
     List.product
       (left_join [r \<leftarrow> Reviews db. r_Movie_ID r = Some (Movie_ID m)])
       (left_join [up \<leftarrow> User_Preferences db.
          up_Genre_ID up \<in> set (movie_genre_ids db (Movie_ID m)) \<and> up_User_ID up = user_id])"

text \<open>The three aggregates of the statement over the joined rows of a movie.\<close>

definition rec_avg :: "database \<Rightarrow> int \<Rightarrow> movie_row \<Rightarrow> rat option" where
  "rec_avg db user_id m =
     AVG (map (\<lambda>(r, up). map_option Score r) (recommendation_join db user_id m))"

definition rec_count :: "database \<Rightarrow> int \<Rightarrow> movie_row \<Rightarrow> nat" where
  "rec_count db user_id m =
     COUNT (map (\<lambda>(r, up). map_option Review_ID r) (recommendation_join db user_id m))"

definition rec_max_preference :: "database \<Rightarrow> int \<Rightarrow> movie_row \<Rightarrow> rat" where
  "rec_max_preference db user_id m =
     COALESCE (MAX_of (map (\<lambda>(r, up). map_option Preference_Score up)
                        (recommendation_join db user_id m))) 0"

text \<open>\<^verbatim>\<open>WHERE m.Movie_ID NOT IN (SELECT Movie_ID FROM Reviews WHERE User_ID = %s ...)\<close>.\<close>

definition recommendation_candidates :: "database \<Rightarrow> int \<Rightarrow> movie_row list" where
  "recommendation_candidates db user_id =
     [m \<leftarrow> Movie db. Movie_ID m \<notin> set (reviewed_movie_ids db user_id)]"

text \<open>
  \<^verbatim>\<open>ORDER BY max_preference_score DESC, AVG(r.Score) DESC, COUNT(r.Review_ID) DESC\<close>:
  the second key is the average before rounding.
\<close>

definition recommendation_key :: "database \<Rightarrow> int \<Rightarrow> movie_row \<Rightarrow> rat \<times> rat option \<times> nat" where
  "recommendation_key db user_id m =
     (rec_max_preference db user_id m, rec_avg db user_id m, rec_count db user_id m)"

definition recommendation_select :: "database \<Rightarrow> int \<Rightarrow> movie_row \<Rightarrow> recommendation_row" where
  "recommendation_select db user_id m =
     \<lparr>Movie_ID = Movie_ID m, Title = Title m, Year = Year m,
      review_count = rec_count db user_id m,
      avg_rating = ROUND2 (rec_avg db user_id m),
      max_preference_score = rec_max_preference db user_id m\<rparr>"

definition recommendation_ranking :: "database \<Rightarrow> int \<Rightarrow> movie_row list" where
  "recommendation_ranking db user_id =
     order_by_desc (recommendation_key db user_id) (recommendation_candidates db user_id)"

definition get_movie_recommendations ::
  "database \<Rightarrow> int \<Rightarrow> int \<Rightarrow> db_error + recommendation_row list" where
  "get_movie_recommendations db user_id limit =
     map_sum id (map (recommendation_select db user_id))
       (LIMIT limit (recommendation_ranking db user_id))"

section \<open>Recommendation.get\_friend\_recommendations\<close>

text \<open>
  \<^verbatim>\<open>FROM Movie m JOIN Reviews r ON m.Movie_ID = r.Movie_ID
  JOIN Friends f ON (f.User_ID1 = %s AND f.User_ID2 = r.User_ID)
                 OR (f.User_ID2 = %s AND f.User_ID1 = r.User_ID)
  WHERE ... AND r.Score >= 7.0\<close>: the joined rows of one movie.
\<close>

definition friend_join :: "database \<Rightarrow> int \<Rightarrow> movie_row \<Rightarrow> (review_row \<times> friends_row) list" where
  "friend_join db user_id m =
     [(r, f). r \<leftarrow> Reviews db, r_Movie_ID r = Some (Movie_ID m),
              f \<leftarrow> Friends db,
              (User_ID1 f = user_id \<and> User_ID2 f = r_User_ID r) \<or>
              (User_ID2 f = user_id \<and> User_ID1 f = r_User_ID r),
              Score r \<ge> 7]"

text \<open>
  \<^verbatim>\<open>CASE WHEN f.User_ID1 = %s THEN f.User_ID2 WHEN f.User_ID2 = %s THEN f.User_ID1 END\<close>.
\<close>

definition friend_case :: "int \<Rightarrow> friends_row \<Rightarrow> int option" where
  "friend_case user_id f =
     (if User_ID1 f = user_id then Some (User_ID2 f)
      else if User_ID2 f = user_id then Some (User_ID1 f)
      else None)"

definition COUNT_DISTINCT :: "'a option list \<Rightarrow> nat" where
  "COUNT_DISTINCT xs = length (remdups (non_null xs))"

definition friend_select :: "database \<Rightarrow> int \<Rightarrow> movie_row \<Rightarrow> friend_recommendation_row" where
  "friend_select db user_id m =
     (let rows = friend_join db user_id m in
      \<lparr>Movie_ID = Movie_ID m, Title = Title m, Year = Year m,
       review_count = COUNT (map (\<lambda>(r, f). Some (Review_ID r)) rows),
       avg_rating = ROUND2 (AVG (map (\<lambda>(r, f). Some (Score r)) rows)),
       friend_likes = COUNT_DISTINCT (map (\<lambda>(r, f). friend_case user_id f) rows),
       content_type = ''movie''\<rparr>)"

text \<open>
  An inner join: a movie without a joined row has no group. The \<^verbatim>\<open>WHERE\<close> clause
  also drops the movies of the sub-select.
\<close>

definition friend_candidates :: "database \<Rightarrow> int \<Rightarrow> movie_row list" where
  "friend_candidates db user_id =
     [m \<leftarrow> Movie db. friend_join db user_id m \<noteq> [] \<and>
                     Movie_ID m \<notin> set (reviewed_movie_ids db user_id)]"

text \<open>\<^verbatim>\<open>ORDER BY friend_likes DESC, avg_rating DESC\<close>: both keys are selected columns.\<close>

definition friend_key :: "friend_recommendation_row \<Rightarrow> nat \<times> rat option" where
  "friend_key row = (friend_likes row, avg_rating row)"

definition friend_ranking :: "database \<Rightarrow> int \<Rightarrow> friend_recommendation_row list" where
  "friend_ranking db user_id =
     order_by_desc friend_key (map (friend_select db user_id) (friend_candidates db user_id))"

definition get_friend_recommendations ::
  "database \<Rightarrow> int \<Rightarrow> int \<Rightarrow> db_error + friend_recommendation_row list" where
  "get_friend_recommendations db user_id limit = LIMIT limit (friend_ranking db user_id)"

section \<open>Movie.get\_movies\_filtered\<close>

text \<open>
  Python's truth test, as \<^verbatim>\<open>if genre_id:\<close> and \<^verbatim>\<open>if search_query:\<close> apply it: \<^verbatim>\<open>None\<close>,
  the integer 0 and the empty string are false.
\<close>

definition truthy_int :: "int option \<Rightarrow> bool" where
  "truthy_int x = (case x of None \<Rightarrow> False | Some n \<Rightarrow> n \<noteq> 0)"

text \<open>\<^verbatim>\<open>x if x else None\<close>, and the value of an integer that passed the truth test.\<close>

definition nonzero :: "int option \<Rightarrow> int option" where
  "nonzero x = (case x of None \<Rightarrow> None | Some n \<Rightarrow> if n = 0 then None else Some n)"

definition truthy_str :: "string option \<Rightarrow> bool" where
  "truthy_str x = (case x of None \<Rightarrow> False | Some s \<Rightarrow> s \<noteq> [])"

text \<open>
  The operator \<^verbatim>\<open>LIKE\<close> of the engine: in the pattern \<^verbatim>\<open>%\<close> stands for any run of
  characters, \<^verbatim>\<open>_\<close> for any one character, and a backslash takes the character after it
  literally. Every other character of the pattern is compared with the character of the
  text under the collation of the column. The collation is declared in the schema, which
  is not among the source files: the comparison of two characters is the parameter
  \<open>ceq\<close>. A \<open>char\<close> stands for one character of the column's character set.
\<close>

fun LIKE :: "(char \<Rightarrow> char \<Rightarrow> bool) \<Rightarrow> string \<Rightarrow> string \<Rightarrow> bool" where
  "LIKE ceq s [] = (s = [])"
| "LIKE ceq s (p # ps) =
     (if p = CHR ''%'' then
        LIKE ceq s ps \<or> (case s of [] \<Rightarrow> False | c # t \<Rightarrow> LIKE ceq t (p # ps))
      else if p = CHR ''_'' then
        (case s of [] \<Rightarrow> False | c # t \<Rightarrow> LIKE ceq t ps)
      else if p = CHR 0x5C then
        (case ps of
           [] \<Rightarrow> (case s of [] \<Rightarrow> False | c # t \<Rightarrow> ceq c p \<and> t = [])
         | q # qs \<Rightarrow> (case s of [] \<Rightarrow> False | c # t \<Rightarrow> ceq c q \<and> LIKE ceq t qs))
      else
        (case s of [] \<Rightarrow> False | c # t \<Rightarrow> ceq c p \<and> LIKE ceq t ps))"

text \<open>
  The statement \<^verbatim>\<open>get_movies_filtered\<close> builds: the join with \<^verbatim>\<open>Movie_Genre\<close> and the
  clause \<^verbatim>\<open>mg.Genre_ID = %s\<close> are added when \<^verbatim>\<open>genre_id\<close> is true, the clause
  \<^verbatim>\<open>m.Title LIKE %s\<close> with the parameter \<^verbatim>\<open>f"%{search_query}%"\<close> when \<^verbatim>\<open>search_query\<close>
  is true. The joined rows of one movie that pass the \<^verbatim>\<open>WHERE\<close> clause:
\<close>

definition where_title :: "(char \<Rightarrow> char \<Rightarrow> bool) \<Rightarrow> string option \<Rightarrow> movie_row \<Rightarrow> bool" where
  "where_title ceq search_query m =
     (case search_query of
        None \<Rightarrow> True
      | Some q \<Rightarrow> if q = [] then True else LIKE ceq (Title m) (''%'' @ q @ ''%''))"

definition filtered_join ::
  "(char \<Rightarrow> char \<Rightarrow> bool) \<Rightarrow> database \<Rightarrow> int option \<Rightarrow> string option \<Rightarrow> movie_row \<Rightarrow>
     (review_row option \<times> movie_genre_row option) list" where
  "filtered_join ceq db genre_id search_query m =
     [(r, mg).
        r \<leftarrow> left_join [r \<leftarrow> Reviews db. r_Movie_ID r = Some (Movie_ID m)],
        mg \<leftarrow> (if truthy_int genre_id
               then [Some mg. mg \<leftarrow> Movie_Genre db, mg_Movie_ID mg = Movie_ID m,
                              Some (mg_Genre_ID mg) = genre_id]
               else [None]),
        where_title ceq search_query m]"

definition filtered_select ::
  "(char \<Rightarrow> char \<Rightarrow> bool) \<Rightarrow> database \<Rightarrow> int option \<Rightarrow> string option \<Rightarrow> movie_row \<Rightarrow>
     rated_movie_row" where
  "filtered_select ceq db genre_id search_query m =
     (let rows = filtered_join ceq db genre_id search_query m in
      \<lparr>Movie_ID = Movie_ID m, Title = Title m, Year = Year m,
       review_count = COUNT (map (\<lambda>(r, mg). map_option Review_ID r) rows),
       avg_rating = ROUND2 (AVG (map (\<lambda>(r, mg). map_option Score r) rows))\<rparr>)"

text \<open>
  \<^verbatim>\<open>GROUP BY m.Movie_ID ORDER BY m.Title\<close>: a movie has a group when one of its joined
  rows passes; the groups come in ascending order of the title under the collation of
  the column, whose sort key is the parameter \<open>weight\<close>.
\<close>

definition get_movies_filtered ::
  "(char \<Rightarrow> char \<Rightarrow> bool) \<Rightarrow> (string \<Rightarrow> 'k::linorder) \<Rightarrow> database \<Rightarrow> int option \<Rightarrow> string option \<Rightarrow>
     rated_movie_row list" where
  "get_movies_filtered ceq weight db genre_id search_query =
     sort_key (\<lambda>row. weight (Title row))
       (map (filtered_select ceq db genre_id search_query)
          [m \<leftarrow> Movie db. filtered_join ceq db genre_id search_query m \<noteq> []])"

section \<open>Movie.get\_movie\_by\_id and Analytics.get\_popular\_movies\<close>









section \<open>The connection and the access functions the handlers call\<close>

text \<open>
  A handler reaches the store through \<^verbatim>\<open>db.execute_query\<close> and \<^verbatim>\<open>db.execute_procedure\<close>.
  The connection holds the tables and a record of what was sent over it: the statements
  executed, the procedures called, and the commit or rollback that ends a write. The
  failure of the connection itself is not modelled: a call fails only when the statement
  or the procedure does.
\<close>

datatype statement =
    SELECT_Reviews int
  | UPDATE_Reviews int
  | DELETE_Reviews int
  | SELECT_User string
  | SELECT_Movie int
  | SELECT_TV_Show int
  | SELECT_Production_Company
  | SELECT_Celebrity

datatype db_event = Execute statement | Callproc string | Commit | Rollback

record connection =
  data :: database
  sent :: "db_event list"

text \<open>\<^verbatim>\<open>execute_query\<close> on a \<^verbatim>\<open>SELECT\<close>: the statement is executed and its rows fetched.\<close>

definition execute_query_read :: "statement \<Rightarrow> connection \<Rightarrow> connection" where
  "execute_query_read st c = c\<lparr>sent := sent c @ [Execute st]\<rparr>"

text \<open>
  \<^verbatim>\<open>execute_query\<close> on any other statement: executed and committed; on an error of the
  engine the connection is rolled back and the error raised again.
\<close>

definition execute_query_write ::
  "statement \<Rightarrow> (database \<Rightarrow> db_error + database) \<Rightarrow> connection \<Rightarrow> (db_error + unit) \<times> connection" where
  "execute_query_write st effect c =
     (case effect (data c) of
        Inr db' \<Rightarrow> (Inr (), \<lparr>data = db', sent = sent c @ [Execute st, Commit]\<rparr>)
      | Inl e \<Rightarrow> (Inl e, c\<lparr>sent := sent c @ [Execute st, Rollback]\<rparr>))"

text \<open>
  \<^verbatim>\<open>execute_procedure\<close>: \<^verbatim>\<open>cursor.callproc\<close>, the result sets collected, then
  \<^verbatim>\<open>commit\<close>; on an error \<^verbatim>\<open>rollback\<close> and \<^verbatim>\<open>raise e\<close>. The stored procedures are not
  among the source files: the body of the procedure is an argument, a function from the
  tables to an error or to its result rows and the new tables.
\<close>

definition execute_procedure ::
  "string \<Rightarrow> (database \<Rightarrow> db_error + 'r list \<times> database) \<Rightarrow> connection \<Rightarrow>
     (db_error + 'r list) \<times> connection" where
  "execute_procedure procedure_name body c =
     (case body (data c) of
        Inr (results, db') \<Rightarrow>
          (Inr results, \<lparr>data = db', sent = sent c @ [Callproc procedure_name, Commit]\<rparr>)
      | Inl e \<Rightarrow> (Inl e, c\<lparr>sent := sent c @ [Callproc procedure_name, Rollback]\<rparr>))"

text \<open>
  A Python \<^verbatim>\<open>float\<close>, as far as the handlers look at it: its truth value and its
  comparison with the integers 0 and 10. \<open>Finite q\<close> is a number, and
  \<^verbatim>\<open>float("nan")\<close>, \<^verbatim>\<open>float("inf")\<close> and \<^verbatim>\<open>float("-inf")\<close> are the other three. Only 0 is
  false; every comparison with \<open>NaN\<close> is false.
\<close>

datatype py_float = Finite rat | PosInf | NegInf | NaN

fun float_truthy :: "py_float \<Rightarrow> bool" where
  "float_truthy (Finite q) = (q \<noteq> 0)"
| "float_truthy PosInf = True"
| "float_truthy NegInf = True"
| "float_truthy NaN = True"

fun float_less :: "py_float \<Rightarrow> rat \<Rightarrow> bool" where
  "float_less (Finite q) k = (q < k)"
| "float_less PosInf k = False"
| "float_less NegInf k = True"
| "float_less NaN k = False"

fun float_greater :: "py_float \<Rightarrow> rat \<Rightarrow> bool" where
  "float_greater (Finite q) k = (q > k)"
| "float_greater PosInf k = True"
| "float_greater NegInf k = False"
| "float_greater NaN k = False"

text \<open>
  \<^verbatim>\<open>Review.create_review\<close>: \<^verbatim>\<open>sp_add_review\<close> with
  \<^verbatim>\<open>[user_id, movie_id, show_id, score, title, content]\<close>; \<^verbatim>\<open>True\<close>, or the error raised
  again.
\<close>

type_synonym review_args = "int \<times> int option \<times> int option \<times> py_float \<times> string \<times> string option"

type_synonym 'r procedure_body = "database \<Rightarrow> db_error + 'r list \<times> database"

definition create_review ::
  "(review_args \<Rightarrow> 'r procedure_body) \<Rightarrow> int \<Rightarrow> py_float \<Rightarrow> string \<Rightarrow> string option \<Rightarrow>
     int option \<Rightarrow> int option \<Rightarrow> connection \<Rightarrow> (db_error + bool) \<times> connection" where
  "create_review sp user_id score title content movie_id show_id c =
     (case execute_procedure ''sp_add_review''
             (sp (user_id, movie_id, show_id, score, title, content)) c of
        (Inr results, c') \<Rightarrow> (Inr True, c')
      | (Inl e, c') \<Rightarrow> (Inl e, c'))"

text \<open>
  \<^verbatim>\<open>Review.get_review_by_id\<close>: the row of \<^verbatim>\<open>Reviews\<close> with the id (the two left joins
  add the titles of its movie and show), \<^verbatim>\<open>results[0] if results else None\<close>.
\<close>

definition get_review_by_id :: "int \<Rightarrow> connection \<Rightarrow> review_row option \<times> connection" where
  "get_review_by_id review_id c =
     ((case [r \<leftarrow> Reviews (data c). Review_ID r = review_id] of
         [] \<Rightarrow> None
       | r # rest \<Rightarrow> Some r),
      execute_query_read (SELECT_Reviews review_id) c)"

text \<open>
  \<^verbatim>\<open>Review.update_review\<close>: \<^verbatim>\<open>UPDATE Reviews SET Score = %s, Title = %s, Content = %s,
  Updated_At = NOW() WHERE Review_ID = %s\<close>. What the engine stores in the column
  \<^verbatim>\<open>Score\<close> for the float it is given, and whether it refuses the float, depends on
  the type of the column, declared in the schema, which is not among the source files:
  it is the parameter \<open>score_column\<close>, \<open>None\<close> where the engine raises an error.
\<close>

definition update_review ::
  "(py_float \<Rightarrow> rat option) \<Rightarrow> int \<Rightarrow> py_float \<Rightarrow> string \<Rightarrow> string option \<Rightarrow> connection \<Rightarrow>
     (db_error + bool) \<times> connection" where
  "update_review score_column review_id score title content c =
     (case execute_query_write (UPDATE_Reviews review_id)
             (\<lambda>db. case score_column score of
                Some q \<Rightarrow>
                  Inr (db\<lparr>Reviews :=
                         map (\<lambda>r. if Review_ID r = review_id
                                  then r\<lparr>Score := q, r_Title := title, Content := content\<rparr>
                                  else r)
                           (Reviews db)\<rparr>)
              | None \<Rightarrow> Inl Error) c of
        (Inr u, c') \<Rightarrow> (Inr True, c')
      | (Inl e, c') \<Rightarrow> (Inl e, c'))"

text \<open>\<^verbatim>\<open>Review.delete_review\<close>: \<^verbatim>\<open>DELETE FROM Reviews WHERE Review_ID = %s\<close>.\<close>

definition delete_review :: "int \<Rightarrow> connection \<Rightarrow> (db_error + bool) \<times> connection" where
  "delete_review review_id c =
     (case execute_query_write (DELETE_Reviews review_id)
             (\<lambda>db. Inr (db\<lparr>Reviews := [r \<leftarrow> Reviews db. Review_ID r \<noteq> review_id]\<rparr>)) c of
        (Inr u, c') \<Rightarrow> (Inr True, c')
      | (Inl e, c') \<Rightarrow> (Inl e, c'))"

text \<open>
  \<^verbatim>\<open>User.get_user_by_email\<close>: \<^verbatim>\<open>SELECT * FROM User WHERE Email = %s\<close>, the first row or
  \<^verbatim>\<open>None\<close>. The equality is the one of the column's collation, declared in the schema:
  the parameter \<open>seq\<close>.
\<close>

definition get_user_by_email ::
  "(string \<Rightarrow> string \<Rightarrow> bool) \<Rightarrow> string \<Rightarrow> connection \<Rightarrow> user_row option \<times> connection" where
  "get_user_by_email seq email c =
     ((case [u \<leftarrow> User (data c). seq (Email u) email] of
         [] \<Rightarrow> None
       | u # rest \<Rightarrow> Some u),
      execute_query_read (SELECT_User email) c)"

text \<open>
  \<^verbatim>\<open>User.create_user\<close>: \<^verbatim>\<open>sp_add_user\<close> with the name, age, role, email, hash of the
  password, gender and verified entity; \<^verbatim>\<open>results[0]['new_user_id'] if results else
  None\<close>. A result row is the value of its column \<^verbatim>\<open>new_user_id\<close>. The salted hash of the
  password is left to the body of the procedure.
\<close>

type_synonym user_args =
  "string \<times> int option \<times> string \<times> string \<times> string \<times> string option \<times> string option \<times> int option"

definition create_user ::
  "(user_args \<Rightarrow> int option procedure_body) \<Rightarrow> user_args \<Rightarrow> connection \<Rightarrow>
     (db_error + int option) \<times> connection" where
  "create_user sp args c =
     (case execute_procedure ''sp_add_user'' (sp args) c of
        (Inr results, c') \<Rightarrow> (Inr (case results of [] \<Rightarrow> None | row # rest \<Rightarrow> row), c')
      | (Inl e, c') \<Rightarrow> (Inl e, c'))"

section \<open>The stored procedure behind create\_review\<close>

text \<open>
  Modelled from the spec: the stored procedure \<^verbatim>\<open>sp_add_review\<close>, whose SQL is not among
  the source files. The spec has "at most one review per (user, content item) pair
  (violated attempts fail)" as the invariant the write enforces, and says of the stored
  procedures that "given inputs, they return a newly generated identifier (or a result
  set) and leave the schema in the documented state". So a call for a user and a target
  that already have a review fails and changes nothing; any other call adds the row
  under a new identifier and returns it. A score that is no number cannot be stored, and
  the call fails as well.
\<close>

definition has_review :: "database \<Rightarrow> int \<Rightarrow> int option \<Rightarrow> int option \<Rightarrow> bool" where
  "has_review db user_id movie_id show_id =
     (\<exists>r \<in> set (Reviews db). r_User_ID r = user_id \<and>
        ((movie_id \<noteq> None \<and> r_Movie_ID r = movie_id) \<or>
         (show_id \<noteq> None \<and> r_Show_ID r = show_id)))"

definition new_review_id :: "database \<Rightarrow> int" where
  "new_review_id db = fold max (map Review_ID (Reviews db)) 0 + 1"

definition sp_add_review :: "review_args \<Rightarrow> int procedure_body" where
  "sp_add_review args db =
     (case args of (user_id, movie_id, show_id, score, title, content) \<Rightarrow>
        if has_review db user_id movie_id show_id then Inl Error
        else
          (case score of
             Finite q \<Rightarrow>
               Inr ([new_review_id db],
                    db\<lparr>Reviews := Reviews db @
                       [\<lparr>Review_ID = new_review_id db, r_User_ID = user_id,
                         r_Movie_ID = movie_id, r_Show_ID = show_id, Score = q,
                         r_Title = title, Content = content\<rparr>]\<rparr>)
           | PosInf \<Rightarrow> Inl Error
           | NegInf \<Rightarrow> Inl Error
           | NaN \<Rightarrow> Inl Error))"

section \<open>The notions of the specification\<close>

text \<open>
  What the specification speaks of, written from its words and independent of the
  statements above: the movies a user has reviewed, the reviews of a movie with their
  number and average, the preference weight of a movie for a user, the friends of a
  user who liked a movie, and the substring relation.
\<close>

definition has_reviewed :: "database \<Rightarrow> int \<Rightarrow> int \<Rightarrow> bool" where
  "has_reviewed db user_id movie_id =
     (\<exists>r \<in> set (Reviews db). r_User_ID r = user_id \<and> r_Movie_ID r = Some movie_id)"

definition movie_reviews :: "database \<Rightarrow> int \<Rightarrow> review_row list" where
  "movie_reviews db movie_id = [r \<leftarrow> Reviews db. r_Movie_ID r = Some movie_id]"

definition movie_review_count :: "database \<Rightarrow> int \<Rightarrow> nat" where
  "movie_review_count db movie_id = length (movie_reviews db movie_id)"

definition mean :: "rat list \<Rightarrow> rat option" where
  "mean vs = (if vs = [] then None else Some (sum_list vs / of_nat (length vs)))"

definition movie_average_rating :: "database \<Rightarrow> int \<Rightarrow> rat option" where
  "movie_average_rating db movie_id = mean (map Score (movie_reviews db movie_id))"






text \<open>
  The weights the user has stored for the genres of the movie, and the largest of them,
  0 when there is none.
\<close>

definition genre_preferences :: "database \<Rightarrow> int \<Rightarrow> int \<Rightarrow> rat list" where
  "genre_preferences db user_id movie_id =
     [Preference_Score up. up \<leftarrow> User_Preferences db, up_User_ID up = user_id,
        up_Genre_ID up \<in> set (movie_genre_ids db movie_id)]"

definition preference_score :: "database \<Rightarrow> int \<Rightarrow> int \<Rightarrow> rat" where
  "preference_score db user_id movie_id =
     (case genre_preferences db user_id movie_id of [] \<Rightarrow> 0 | w # ws \<Rightarrow> fold max ws w)"

text \<open>
  The reviews of a movie by friends of the user with a score of at least 7.0, the
  friends who wrote them, and their scores.
\<close>

definition friend_reviews :: "database \<Rightarrow> int \<Rightarrow> int \<Rightarrow> review_row list" where
  "friend_reviews db user_id movie_id =
     [r \<leftarrow> Reviews db. r_Movie_ID r = Some movie_id \<and> Score r \<ge> 7 \<and>
                        are_friends db user_id (r_User_ID r)]"

definition friends_who_liked :: "database \<Rightarrow> int \<Rightarrow> int \<Rightarrow> int set" where
  "friends_who_liked db user_id movie_id = set (map r_User_ID (friend_reviews db user_id movie_id))"

definition friend_average :: "database \<Rightarrow> int \<Rightarrow> int \<Rightarrow> rat option" where
  "friend_average db user_id movie_id =
     map_option round2 (mean (map Score (friend_reviews db user_id movie_id)))"

text \<open>Every pair of friends is stored in one row of \<^verbatim>\<open>Friends\<close>, in one orientation.\<close>

definition stored_once :: "database \<Rightarrow> bool" where
  "stored_once db =
     distinct (map (\<lambda>f. (min (User_ID1 f) (User_ID2 f), max (User_ID1 f) (User_ID2 f)))
                 (Friends db))"

definition has_genre :: "database \<Rightarrow> int \<Rightarrow> int \<Rightarrow> bool" where
  "has_genre db movie_id genre_id =
     (\<exists>mg \<in> set (Movie_Genre db). mg_Movie_ID mg = movie_id \<and> mg_Genre_ID mg = genre_id)"

text \<open>
  The text \<open>s\<close> contains \<open>q\<close>: some run of consecutive characters of \<open>s\<close> is \<open>q\<close>,
  character by character under \<open>ceq\<close>.
\<close>

fun contains :: "(char \<Rightarrow> char \<Rightarrow> bool) \<Rightarrow> string \<Rightarrow> string \<Rightarrow> bool" where
  "contains ceq [] q = (q = [])"
| "contains ceq (c # t) q =
     (list_all2 ceq (take (length q) (c # t)) q \<or> contains ceq t q)"

text \<open>The characters that \<^verbatim>\<open>LIKE\<close> does not take literally.\<close>

definition plain :: "string \<Rightarrow> bool" where
  "plain q = (CHR ''%'' \<notin> set q \<and> CHR ''_'' \<notin> set q \<and> CHR 0x5C \<notin> set q)"

section \<open>The request handlers\<close>

text \<open>
  A handler reads the request and the session, talks to the store, flashes messages and
  answers with a redirect or a rendered template. The session is the Flask
  \<^verbatim>\<open>session\<close>: a key that is not set is \<open>None\<close>.
\<close>

record session =
  user_id :: "int option"
  user_name :: "string option"
  user_role :: "string option"

datatype http_method = GET | POST

datatype location =
    Url string
  | Home
  | Login
  | Profile
  | Movie_detail int
  | Show_detail int
  | Edit_review int

datatype response = Redirect location | Render_template string

text \<open>
  A flashed message is its text and its category; \<open>Text_error t e\<close> is the text \<open>t\<close>
  followed by \<^verbatim>\<open>str(e)\<close> of the error caught.
\<close>

datatype flash_text = Text string | Text_error string db_error

record reply =
  response :: response
  flashed :: "(flash_text \<times> string) list"

type_synonym outcome = "reply \<times> session \<times> connection"

record request =
  request_method :: http_method
  referrer :: "string option"

text \<open>\<^verbatim>\<open>redirect(request.referrer or url_for('home'))\<close>.\<close>

definition referrer_or_home :: "'a request_scheme \<Rightarrow> location" where
  "referrer_or_home req =
     (case referrer req of None \<Rightarrow> Home | Some u \<Rightarrow> if u = [] then Home else Url u)"

text \<open>
  The decorator \<^verbatim>\<open>login_required\<close> of models.py, which app.py imports: without the
  key \<^verbatim>\<open>user_id\<close> in the session the handler is not run.
\<close>

definition login_required ::
  "(session \<Rightarrow> 'q \<Rightarrow> connection \<Rightarrow> outcome) \<Rightarrow> session \<Rightarrow> 'q \<Rightarrow> connection \<Rightarrow> outcome" where
  "login_required f s req c =
     (if user_id s = None
      then (\<lparr>response = Redirect Login,
             flashed = [(Text ''Please log in to access this page.'', ''error'')]\<rparr>, s, c)
      else f s req c)"

subsection \<open>add\_review\<close>

text \<open>
  The text of a form field by what Python's \<^verbatim>\<open>int\<close> makes of it: \<open>Int_text n\<close> is a text
  that \<^verbatim>\<open>int\<close> reads as \<open>n\<close>, \<open>Other_text t\<close> a text \<open>t\<close> on which it raises
  \<^verbatim>\<open>ValueError\<close> (the empty text is one of these). \<^verbatim>\<open>request.form.get('score',
  type=float)\<close> is the float read from the field, and \<^verbatim>\<open>None\<close> when the field is missing
  or is no float.
\<close>

datatype form_text = Int_text int | Other_text string

record review_request = request +
  form_score :: "py_float option"
  form_title :: "string option"
  form_content :: "string option"

record add_review_request = review_request +
  form_movie_id :: "form_text option"
  form_show_id :: "form_text option"
  args_movie_id :: "int option"
  args_show_id :: "int option"

text \<open>
  \<^verbatim>\<open>if movie_id_raw: try: movie_id = int(movie_id_raw) except (ValueError, TypeError):
  movie_id = None\<close>, with \<^verbatim>\<open>movie_id = None\<close> before.
\<close>

definition parse_id :: "form_text option \<Rightarrow> int option" where
  "parse_id raw =
     (case raw of
        None \<Rightarrow> None
      | Some (Int_text n) \<Rightarrow> Some n
      | Some (Other_text t) \<Rightarrow> None)"

definition reject :: "'a request_scheme \<Rightarrow> string \<Rightarrow> reply" where
  "reject req msg = \<lparr>response = Redirect (referrer_or_home req), flashed = [(Text msg, ''error'')]\<rparr>"

definition add_review ::
  "(review_args \<Rightarrow> 'r procedure_body) \<Rightarrow> session \<Rightarrow> add_review_request \<Rightarrow> connection \<Rightarrow> outcome" where
  "add_review sp s req c =
     (if request_method req = POST then
        (let movie_id = parse_id (form_movie_id req);
             show_id = parse_id (form_show_id req)
         in
         if truthy_int movie_id \<and> truthy_int show_id then
           (reject req ''Please review either a movie or a show, not both.'', s, c)
         else if \<not> truthy_int movie_id \<and> \<not> truthy_int show_id then
           (reject req ''Please select a movie or show to review.'', s, c)
         else
           (case (form_score req, form_title req) of
              (Some score, Some title) \<Rightarrow>
                if \<not> (float_truthy score \<and> title \<noteq> []) then
                  (reject req ''Please fill in all required fields.'', s, c)
                else if float_less score 0 \<or> float_greater score 10 then
                  (reject req ''Score must be between 0 and 10.'', s, c)
                else
                  (case user_id s of
                     None \<Rightarrow>
                       (reject req
                          ''Failed to add review. You may have already reviewed this content.'',
                        s, c)
                   | Some uid \<Rightarrow>
                       (case create_review sp uid score title (form_content req)
                               (nonzero movie_id) (nonzero show_id) c of
                          (Inr ok, c') \<Rightarrow>
                            (\<lparr>response =
                                Redirect
                                  (case nonzero movie_id of
                                     Some m \<Rightarrow> Movie_detail m
                                   | None \<Rightarrow>
                                       (case nonzero show_id of
                                          Some sh \<Rightarrow> Show_detail sh
                                        | None \<Rightarrow> Home)),
                              flashed = [(Text ''Review added successfully!'', ''success'')]\<rparr>,
                             s, c')
                        | (Inl e, c') \<Rightarrow>
                            (reject req
                               ''Failed to add review. You may have already reviewed this content.'',
                             s, c')))
            | (score, title) \<Rightarrow> (reject req ''Please fill in all required fields.'', s, c)))
      else
        (case nonzero (args_movie_id req) of
           Some m \<Rightarrow>
             (\<lparr>response = Render_template ''add_review.html'', flashed = []\<rparr>, s,
              execute_query_read (SELECT_Movie m) c)
         | None \<Rightarrow>
             (case nonzero (args_show_id req) of
                Some sh \<Rightarrow>
                  (\<lparr>response = Render_template ''add_review.html'', flashed = []\<rparr>, s,
                   execute_query_read (SELECT_TV_Show sh) c)
              | None \<Rightarrow>
                  (\<lparr>response = Redirect Home,
                    flashed = [(Text ''Please select a movie or show to review.'', ''error'')]\<rparr>,
                   s, c))))"

subsection \<open>edit\_review and delete\_review\<close>

text \<open>
  \<^verbatim>\<open>session['user_id']\<close> on a session without the key raises \<^verbatim>\<open>KeyError\<close>, which the
  handler's \<^verbatim>\<open>except Exception\<close> turns into its error reply.
\<close>

definition to_profile :: "string \<Rightarrow> reply" where
  "to_profile msg = \<lparr>response = Redirect Profile, flashed = [(Text msg, ''error'')]\<rparr>"

definition edit_review ::
  "(py_float \<Rightarrow> rat option) \<Rightarrow> int \<Rightarrow> session \<Rightarrow> review_request \<Rightarrow> connection \<Rightarrow> outcome" where
  "edit_review score_column review_id s req c =
     (case get_review_by_id review_id c of
        (None, c1) \<Rightarrow> (to_profile ''Review not found.'', s, c1)
      | (Some review, c1) \<Rightarrow>
          (case user_id s of
             None \<Rightarrow> (to_profile ''Error loading review. Please try again.'', s, c1)
           | Some uid \<Rightarrow>
               if r_User_ID review \<noteq> uid then
                 (to_profile ''You can only edit your own reviews.'', s, c1)
               else if request_method req = POST then
                 (case (form_score req, form_title req) of
                    (Some score, Some title) \<Rightarrow>
                      if \<not> (float_truthy score \<and> title \<noteq> []) then
                        (\<lparr>response = Redirect (Edit_review review_id),
                          flashed = [(Text ''Please fill in all required fields.'', ''error'')]\<rparr>,
                         s, c1)
                      else if float_less score 0 \<or> float_greater score 10 then
                        (\<lparr>response = Redirect (Edit_review review_id),
                          flashed = [(Text ''Score must be between 0 and 10.'', ''error'')]\<rparr>,
                         s, c1)
                      else
                        (case update_review score_column review_id score title (form_content req) c1 of
                           (Inr ok, c2) \<Rightarrow>
                             (\<lparr>response = Redirect Profile,
                               flashed = [(Text ''Review updated successfully!'', ''success'')]\<rparr>,
                              s, c2)
                         | (Inl e, c2) \<Rightarrow>
                             (\<lparr>response = Redirect (Edit_review review_id),
                               flashed =
                                 [(Text ''Error updating review. Please try again.'', ''error'')]\<rparr>,
                              s, c2))
                  | (score, title) \<Rightarrow>
                      (\<lparr>response = Redirect (Edit_review review_id),
                        flashed = [(Text ''Please fill in all required fields.'', ''error'')]\<rparr>,
                       s, c1))
               else
                 (\<lparr>response = Render_template ''edit_review.html'', flashed = []\<rparr>, s,
                  (case nonzero (r_Movie_ID review) of
                     Some m \<Rightarrow> execute_query_read (SELECT_Movie m) c1
                   | None \<Rightarrow>
                       (case nonzero (r_Show_ID review) of
                          Some sh \<Rightarrow> execute_query_read (SELECT_TV_Show sh) c1
                        | None \<Rightarrow> c1)))))"

definition delete_review_handler :: "int \<Rightarrow> session \<Rightarrow> request \<Rightarrow> connection \<Rightarrow> outcome" where
  "delete_review_handler review_id s req c =
     (case get_review_by_id review_id c of
        (None, c1) \<Rightarrow> (to_profile ''Review not found.'', s, c1)
      | (Some review, c1) \<Rightarrow>
          (case user_id s of
             None \<Rightarrow> (to_profile ''Error deleting review. Please try again.'', s, c1)
           | Some uid \<Rightarrow>
               if r_User_ID review \<noteq> uid then
                 (to_profile ''You can only delete your own reviews.'', s, c1)
               else
                 (case delete_review review_id c1 of
                    (Inr ok, c2) \<Rightarrow>
                      (\<lparr>response = Redirect Profile,
                        flashed = [(Text ''Review deleted successfully!'', ''success'')]\<rparr>,
                       s, c2)
                  | (Inl e, c2) \<Rightarrow>
                      (to_profile ''Error deleting review. Please try again.'', s, c2))))"

subsection \<open>register\<close>

record register_request = request +
  form_name :: "string option"
  form_email :: "string option"
  form_password :: "string option"
  form_confirm_password :: "string option"
  form_age :: "int option"
  form_gender :: "string option"
  form_role :: "string option"
  form_verified_entity_type :: "string option"
  form_verified_entity_id :: "int option"

text \<open>
  The end of \<^verbatim>\<open>register\<close>, reached on \<^verbatim>\<open>GET\<close> and after a failed creation: the two
  lists for the dropdowns are read and the form is rendered.
\<close>

definition register_form :: "(flash_text \<times> string) list \<Rightarrow> session \<Rightarrow> connection \<Rightarrow> outcome" where
  "register_form msgs s c =
     (\<lparr>response = Render_template ''register.html'', flashed = msgs\<rparr>, s,
      execute_query_read SELECT_Celebrity (execute_query_read SELECT_Production_Company c))"

definition register_error :: "string \<Rightarrow> reply" where
  "register_error msg =
     \<lparr>response = Render_template ''register.html'', flashed = [(Text msg, ''error'')]\<rparr>"

definition register ::
  "(user_args \<Rightarrow> int option procedure_body) \<Rightarrow> (string \<Rightarrow> string \<Rightarrow> bool) \<Rightarrow>
     session \<Rightarrow> register_request \<Rightarrow> connection \<Rightarrow> outcome" where
  "register sp seq s req c =
     (if request_method req = POST then
        (case (form_name req, form_email req, form_password req, form_confirm_password req) of
           (Some name, Some email, Some password, Some confirm_password) \<Rightarrow>
             if name = [] \<or> email = [] \<or> password = [] \<or> confirm_password = [] then
               (register_error ''Please fill in all required fields.'', s, c)
             else if password \<noteq> confirm_password then
               (register_error ''Passwords do not match.'', s, c)
             else if (case nonzero (form_age req) of
                        None \<Rightarrow> False
                      | Some age \<Rightarrow> age < 13 \<or> age > 120) then
               (register_error ''Age must be between 13 and 120.'', s, c)
             else
               (case get_user_by_email seq email c of
                  (Some existing_user, c1) \<Rightarrow> (register_error ''Email already registered.'', s, c1)
                | (None, c1) \<Rightarrow>
                    (case create_user sp
                            (name, form_age req,
                             (case form_role req of None \<Rightarrow> ''normal_user'' | Some r \<Rightarrow> r), email,
                             password, form_gender req,
                             (if form_verified_entity_type req = Some [] then None
                              else form_verified_entity_type req),
                             form_verified_entity_id req) c1 of
                       (Inr new_id, c2) \<Rightarrow>
                         if truthy_int new_id then
                           (\<lparr>response = Redirect Login,
                             flashed =
                               [(Text ''Registration successful! Please log in.'', ''success'')]\<rparr>,
                            s, c2)
                         else
                           register_form
                             [(Text ''Registration failed. Please try again.'', ''error'')] s c2
                     | (Inl e, c2) \<Rightarrow>
                         register_form [(Text_error ''Registration failed: '' e, ''error'')] s c2))
         | (name, email, password, confirm_password) \<Rightarrow>
             (register_error ''Please fill in all required fields.'', s, c))
      else register_form [] s c)"

section \<open>Example states\<close>

text \<open>
  User 1 has stored a preference for each of the three genres of the movie Alpha and
  for the one genre of Beta. Alpha has one review, Beta has two, all with score 8.
\<close>

definition db_genres :: database where
  "db_genres =
     \<lparr>Movie = [\<lparr>Movie_ID = 1, Title = ''Alpha'', Year = 2001\<rparr>,
               \<lparr>Movie_ID = 2, Title = ''Beta'', Year = 2002\<rparr>],
      TV_Show = [],
      Reviews =
        [\<lparr>Review_ID = 1, r_User_ID = 2, r_Movie_ID = Some 1, r_Show_ID = None, Score = 8,
          r_Title = ''fine'', Content = None\<rparr>,
         \<lparr>Review_ID = 2, r_User_ID = 2, r_Movie_ID = Some 2, r_Show_ID = None, Score = 8,
          r_Title = ''fine'', Content = None\<rparr>,
         \<lparr>Review_ID = 3, r_User_ID = 3, r_Movie_ID = Some 2, r_Show_ID = None, Score = 8,
          r_Title = ''fine'', Content = None\<rparr>],
      Friends = [],
      User_Preferences =
        [\<lparr>up_User_ID = 1, up_Genre_ID = 1, Preference_Score = 5\<rparr>,
         \<lparr>up_User_ID = 1, up_Genre_ID = 2, Preference_Score = 3\<rparr>,
         \<lparr>up_User_ID = 1, up_Genre_ID = 3, Preference_Score = 1\<rparr>],
      Movie_Genre =
        [\<lparr>mg_Movie_ID = 1, mg_Genre_ID = 1\<rparr>, \<lparr>mg_Movie_ID = 1, mg_Genre_ID = 2\<rparr>,
         \<lparr>mg_Movie_ID = 1, mg_Genre_ID = 3\<rparr>, \<lparr>mg_Movie_ID = 2, mg_Genre_ID = 1\<rparr>],
      User = []\<rparr>"

text \<open>
  User 1 is a friend of user 2 (stored as 1, 2) and of user 4 (stored as 4, 1), not of
  user 3. Friend 2 gave Alpha 7 and Beta 8, friend 4 gave Alpha 6.9; user 3 gave Alpha 10
  and Beta 1. User 1 has reviewed Gamma, which friend 4 liked.
\<close>

definition db_friends :: database where
  "db_friends =
     \<lparr>Movie = [\<lparr>Movie_ID = 1, Title = ''Alpha'', Year = 2001\<rparr>,
               \<lparr>Movie_ID = 2, Title = ''Beta'', Year = 2002\<rparr>,
               \<lparr>Movie_ID = 3, Title = ''Gamma'', Year = 2003\<rparr>],
      TV_Show = [],
      Reviews =
        [\<lparr>Review_ID = 1, r_User_ID = 2, r_Movie_ID = Some 1, r_Show_ID = None, Score = 7,
          r_Title = ''good'', Content = None\<rparr>,
         \<lparr>Review_ID = 2, r_User_ID = 3, r_Movie_ID = Some 1, r_Show_ID = None, Score = 10,
          r_Title = ''great'', Content = None\<rparr>,
         \<lparr>Review_ID = 3, r_User_ID = 2, r_Movie_ID = Some 2, r_Show_ID = None, Score = 8,
          r_Title = ''good'', Content = None\<rparr>,
         \<lparr>Review_ID = 4, r_User_ID = 3, r_Movie_ID = Some 2, r_Show_ID = None, Score = 1,
          r_Title = ''bad'', Content = None\<rparr>,
         \<lparr>Review_ID = 5, r_User_ID = 1, r_Movie_ID = Some 3, r_Show_ID = None, Score = 9,
          r_Title = ''mine'', Content = None\<rparr>,
         \<lparr>Review_ID = 6, r_User_ID = 4, r_Movie_ID = Some 3, r_Show_ID = None, Score = 9,
          r_Title = ''good'', Content = None\<rparr>,
         \<lparr>Review_ID = 7, r_User_ID = 4, r_Movie_ID = Some 1, r_Show_ID = None, Score = 69 / 10,
          r_Title = ''fair'', Content = None\<rparr>],
      Friends = [\<lparr>User_ID1 = 1, User_ID2 = 2\<rparr>, \<lparr>User_ID1 = 4, User_ID2 = 1\<rparr>],
      User_Preferences = [],
      Movie_Genre = [],
      User = []\<rparr>"

text \<open>
  A catalog of four movies; the first two have genre 7. One review of score 10 for the
  second, five reviews of score 1 for the third.
\<close>

definition db_catalog :: database where
  "db_catalog =
     \<lparr>Movie = [\<lparr>Movie_ID = 1, Title = ''Up'', Year = 2009\<rparr>,
               \<lparr>Movie_ID = 2, Title = ''Heat'', Year = 1995\<rparr>,
               \<lparr>Movie_ID = 3, Title = ''Cats'', Year = 2019\<rparr>,
               \<lparr>Movie_ID = 4, Title = ''Se7en'', Year = 1995\<rparr>],
      TV_Show = [\<lparr>Show_ID = 1, s_Title = ''Lost'', s_Year = 2004\<rparr>],
      Reviews =
        [\<lparr>Review_ID = 1, r_User_ID = 1, r_Movie_ID = Some 2, r_Show_ID = None, Score = 10,
          r_Title = ''great'', Content = None\<rparr>,
         \<lparr>Review_ID = 2, r_User_ID = 1, r_Movie_ID = Some 3, r_Show_ID = None, Score = 1,
          r_Title = ''bad'', Content = None\<rparr>,
         \<lparr>Review_ID = 3, r_User_ID = 2, r_Movie_ID = Some 3, r_Show_ID = None, Score = 1,
          r_Title = ''bad'', Content = None\<rparr>,
         \<lparr>Review_ID = 4, r_User_ID = 3, r_Movie_ID = Some 3, r_Show_ID = None, Score = 1,
          r_Title = ''bad'', Content = None\<rparr>,
         \<lparr>Review_ID = 5, r_User_ID = 4, r_Movie_ID = Some 3, r_Show_ID = None, Score = 1,
          r_Title = ''bad'', Content = None\<rparr>,
         \<lparr>Review_ID = 6, r_User_ID = 5, r_Movie_ID = Some 3, r_Show_ID = None, Score = 1,
          r_Title = ''bad'', Content = None\<rparr>],
      Friends = [],
      User_Preferences = [],
      Movie_Genre = [\<lparr>mg_Movie_ID = 1, mg_Genre_ID = 7\<rparr>, \<lparr>mg_Movie_ID = 2, mg_Genre_ID = 7\<rparr>],
      User =
        [\<lparr>User_ID = 1, Name = ''Alice'', Email = ''alice@example.org'',
          PasswordHash = ''x'', Role = ''normal_user''\<rparr>]\<rparr>"

definition conn_catalog :: connection where
  "conn_catalog = \<lparr>data = db_catalog, sent = []\<rparr>"

definition session_user1 :: session where
  "session_user1 = \<lparr>user_id = Some 1, user_name = Some ''Alice'', user_role = Some ''normal_user''\<rparr>"

definition session_user2 :: session where
  "session_user2 = \<lparr>user_id = Some 2, user_name = Some ''Bob'', user_role = Some ''normal_user''\<rparr>"

definition session_anonymous :: session where
  "session_anonymous = \<lparr>user_id = None, user_name = None, user_role = None\<rparr>"

text \<open>A review of movie 1 posted with the text \<^verbatim>\<open>nan\<close> in the score field.\<close>

definition post_review_nan :: add_review_request where
  "post_review_nan =
     \<lparr>request_method = POST, referrer = None, form_score = Some NaN, form_title = Some ''Fine'',
      form_content = None, form_movie_id = Some (Int_text 1), form_show_id = None,
      args_movie_id = None, args_show_id = None\<rparr>"

text \<open>The same with score 11, and with score 8.\<close>

definition post_review_11 :: add_review_request where
  "post_review_11 = post_review_nan\<lparr>form_score := Some (Finite 11)\<rparr>"

definition post_review_8 :: add_review_request where
  "post_review_8 = post_review_nan\<lparr>form_score := Some (Finite 8)\<rparr>"

definition post_edit :: review_request where
  "post_edit =
     \<lparr>request_method = POST, referrer = None, form_score = Some (Finite 5), form_title = Some ''Edited'',
      form_content = None\<rparr>"

text \<open>An engine that stores a number as it is and refuses the other floats.\<close>

fun finite_score :: "py_float \<Rightarrow> rat option" where
  "finite_score (Finite q) = Some q"
| "finite_score PosInf = None"
| "finite_score NegInf = None"
| "finite_score NaN = None"

definition post_delete :: request where
  "post_delete = \<lparr>request_method = POST, referrer = None\<rparr>"

text \<open>A registration with the email of the user stored in the catalog state.\<close>

definition post_register_alice :: register_request where
  "post_register_alice =
     \<lparr>request_method = POST, referrer = None, form_name = Some ''Alice'',
      form_email = Some ''alice@example.org'', form_password = Some ''secret'',
      form_confirm_password = Some ''secret'', form_age = Some 30, form_gender = None,
      form_role = None, form_verified_entity_type = None, form_verified_entity_id = None\<rparr>"

text \<open>A body for \<^verbatim>\<open>sp_add_user\<close> that adds nothing and returns the identifier 2.\<close>

definition sp_add_user_stub :: "user_args \<Rightarrow> int option procedure_body" where
  "sp_add_user_stub args db = Inr ([Some 2], db)"

section \<open>Auxiliary facts\<close>

lemma are_friends_iff:
  "are_friends db a b \<longleftrightarrow>
     (\<exists>f \<in> set (Friends db). (User_ID1 f = a \<and> User_ID2 f = b) \<or> (User_ID1 f = b \<and> User_ID2 f = a))"
  by (auto simp: are_friends_def are_friends_count_def filter_empty_conv)

lemma set_reviewed_movie_ids:
  "set (reviewed_movie_ids db u) = {m. has_reviewed db u m}"
  by (auto simp: reviewed_movie_ids_def has_reviewed_def List.map_filter_def split: if_splits)
     force

lemma set_order_by_desc [simp]: "set (order_by_desc k xs) = set xs"
  by (simp add: order_by_desc_def)

lemma sorted_order_by_desc:
  "sorted_wrt (\<lambda>a b. k a \<ge> k b) (order_by_desc k xs)"
proof -
  have "sorted (map k (sort_key k xs))" by simp
  then have "sorted_wrt (\<lambda>a b. k a \<le> k b) (sort_key k xs)"
    by (simp add: sorted_map)
  then show ?thesis
    by (simp add: order_by_desc_def sorted_wrt_rev)
qed

lemma movie_recommendations_Inr:
  "get_movie_recommendations db u n = Inr rows \<longleftrightarrow>
     0 \<le> n \<and> rows = map (recommendation_select db u)
        (take (nat n) (order_by_desc (recommendation_key db u) (recommendation_candidates db u)))"
  by (auto simp: get_movie_recommendations_def recommendation_ranking_def LIMIT_def)

lemma friend_recommendations_Inr:
  "get_friend_recommendations db u n = Inr rows \<longleftrightarrow>
     0 \<le> n \<and> rows = take (nat n) (friend_ranking db u)"
  by (auto simp: get_friend_recommendations_def LIMIT_def)

lemma Movie_ID_recommendation_select [simp]:
  "Movie_ID (recommendation_select db u m) = Movie_ID m"
  by (simp add: recommendation_select_def)

lemma Movie_ID_friend_select [simp]:
  "Movie_ID (friend_select db u m) = Movie_ID m"
  by (simp add: friend_select_def Let_def)

lemma recommendation_candidates_not_reviewed:
  "m \<in> set (recommendation_candidates db u) \<Longrightarrow> \<not> has_reviewed db u (Movie_ID m)"
  by (simp add: recommendation_candidates_def set_reviewed_movie_ids)

lemma friend_candidates_not_reviewed:
  "m \<in> set (friend_candidates db u) \<Longrightarrow> \<not> has_reviewed db u (Movie_ID m)"
  by (simp add: friend_candidates_def set_reviewed_movie_ids)

lemma movie_recommendations_not_reviewed:
  assumes "get_movie_recommendations db u n = Inr rows" and "row \<in> set rows"
  shows "\<not> has_reviewed db u (Movie_ID row)"
proof -
  from assms obtain m where "m \<in> set (recommendation_candidates db u)"
    and "row = recommendation_select db u m"
    by (auto simp: movie_recommendations_Inr dest!: in_set_takeD)
  then show ?thesis
    by (simp add: recommendation_candidates_not_reviewed)
qed

lemma friend_recommendations_not_reviewed:
  assumes "get_friend_recommendations db u n = Inr rows" and "row \<in> set rows"
  shows "\<not> has_reviewed db u (Movie_ID row)"
proof -
  from assms obtain m where "m \<in> set (friend_candidates db u)"
    and "row = friend_select db u m"
    by (auto simp: friend_recommendations_Inr friend_ranking_def dest!: in_set_takeD)
  then show ?thesis
    by (simp add: friend_candidates_not_reviewed)
qed

lemma non_null_left_join: "non_null (map (map_option f) (left_join xs)) = map f xs"
  by (simp add: non_null_def left_join_def List.map_filter_def comp_def filter_map)














text \<open>The text filter: \<^verbatim>\<open>LIKE\<close> with a pattern between two \<^verbatim>\<open>%\<close>.\<close>

declare LIKE.simps(2) [simp del]

lemma LIKE_percent_iff:
  "LIKE ceq s (CHR ''%'' # ps) \<longleftrightarrow> (\<exists>pre post. s = pre @ post \<and> LIKE ceq post ps)"
proof (induction s)
  case Nil
  then show ?case by (simp add: LIKE.simps(2))
next
  case (Cons c t)
  have "(\<exists>pre post. c # t = pre @ post \<and> LIKE ceq post ps) \<longleftrightarrow>
        LIKE ceq (c # t) ps \<or> (\<exists>pre post. t = pre @ post \<and> LIKE ceq post ps)"
    by (auto simp: Cons_eq_append_conv)
  with Cons show ?case by (simp add: LIKE.simps(2) [of ceq "c # t"])
qed

lemma LIKE_percent_only [simp]: "LIKE ceq s ''%''"
  by (simp add: LIKE_percent_iff)

lemma LIKE_plain_prefix:
  "plain q \<Longrightarrow>
   LIKE ceq s (q @ ps) \<longleftrightarrow> (\<exists>mid rest. s = mid @ rest \<and> list_all2 ceq mid q \<and> LIKE ceq rest ps)"
proof (induction q arbitrary: s)
  case Nil
  then show ?case by simp
next
  case (Cons a q)
  then have a: "a \<noteq> CHR ''%''" "a \<noteq> CHR ''_''" "a \<noteq> CHR 0x5C" and q: "plain q"
    by (auto simp: plain_def)
  show ?case
  proof (cases s)
    case Nil
    then show ?thesis using a by (simp add: LIKE.simps(2))
  next
    case (Cons c t)
    have "LIKE ceq s ((a # q) @ ps) \<longleftrightarrow> ceq c a \<and> LIKE ceq t (q @ ps)"
      using a Cons by (simp add: LIKE.simps(2))
    also have "\<dots> \<longleftrightarrow> ceq c a \<and> (\<exists>mid rest. t = mid @ rest \<and> list_all2 ceq mid q \<and> LIKE ceq rest ps)"
      using Cons.IH [OF q] by simp
    also have "\<dots> \<longleftrightarrow> (\<exists>mid rest. s = mid @ rest \<and> list_all2 ceq mid (a # q) \<and> LIKE ceq rest ps)"
      using Cons by (auto simp: list_all2_Cons2 Cons_eq_append_conv) 
    finally show ?thesis .
  qed
qed

lemma list_all2_take_iff:
  "list_all2 P (take (length q) s) q \<longleftrightarrow> (\<exists>mid post. s = mid @ post \<and> list_all2 P mid q)"
proof
  assume "list_all2 P (take (length q) s) q"
  then have "s = take (length q) s @ drop (length q) s \<and> list_all2 P (take (length q) s) q"
    by simp
  then show "\<exists>mid post. s = mid @ post \<and> list_all2 P mid q" by blast
next
  assume "\<exists>mid post. s = mid @ post \<and> list_all2 P mid q"
  then obtain mid post where s: "s = mid @ post" and m: "list_all2 P mid q" by blast
  from m have "length mid = length q" by (rule list_all2_lengthD)
  with s have "take (length q) s = mid" by simp
  with m show "list_all2 P (take (length q) s) q" by simp
qed

lemma contains_iff:
  "contains ceq s q \<longleftrightarrow> (\<exists>pre mid post. s = pre @ mid @ post \<and> list_all2 ceq mid q)"
proof (induction s)
  case Nil
  then show ?case by auto
next
  case (Cons c t)
  have "(\<exists>pre mid post. c # t = pre @ mid @ post \<and> list_all2 ceq mid q) \<longleftrightarrow>
        (\<exists>mid post. c # t = mid @ post \<and> list_all2 ceq mid q) \<or>
        (\<exists>pre mid post. t = pre @ mid @ post \<and> list_all2 ceq mid q)"
    (is "?L \<longleftrightarrow> ?A \<or> ?B")
  proof
    assume ?L
    then obtain pre mid post where e: "c # t = pre @ mid @ post" and m: "list_all2 ceq mid q"
      by blast
    show "?A \<or> ?B"
    proof (cases pre)
      case Nil
      with e m show ?thesis by auto
    next
      case (Cons p pre')
      with e have "t = pre' @ mid @ post" by simp
      with m show ?thesis by blast
    qed
  next
    assume "?A \<or> ?B"
    then show ?L
    proof
      assume ?A
      then obtain mid post where "c # t = [] @ mid @ post" "list_all2 ceq mid q" by auto
      then show ?L by blast
    next
      assume ?B
      then obtain pre mid post where "c # t = (c # pre) @ mid @ post" "list_all2 ceq mid q"
        by auto
      then show ?L by blast
    qed
  qed
  then show ?case
    using Cons.IH list_all2_take_iff [of ceq q "c # t"] by simp
qed

lemma LIKE_plain_contains:
  assumes "plain q"
  shows "LIKE ceq t (''%'' @ q @ ''%'') = contains ceq t q"
proof -
  have "LIKE ceq t (''%'' @ q @ ''%'') \<longleftrightarrow>
        (\<exists>pre post. t = pre @ post \<and> LIKE ceq post (q @ ''%''))"
    using LIKE_percent_iff [of ceq t "q @ ''%''"] by simp
  also have "\<dots> \<longleftrightarrow> (\<exists>pre post. t = pre @ post \<and>
        (\<exists>mid rest. post = mid @ rest \<and> list_all2 ceq mid q))"
    using LIKE_plain_prefix [OF assms, of ceq _ "''%''"] by simp
  also have "\<dots> \<longleftrightarrow> (\<exists>pre mid rest. t = pre @ mid @ rest \<and> list_all2 ceq mid q)"
    by blast
  finally show ?thesis by (simp add: contains_iff)
qed

lemma left_join_nonempty [simp]: "left_join xs \<noteq> []"
  by (simp add: left_join_def)

lemma filtered_join_nonempty:
  "filtered_join ceq db genre_id search_query m \<noteq> [] \<longleftrightarrow>
     (\<forall>g. genre_id = Some g \<and> g \<noteq> 0 \<longrightarrow> has_genre db (Movie_ID m) g) \<and>
     (\<forall>q. search_query = Some q \<and> q \<noteq> [] \<longrightarrow> LIKE ceq (Title m) (''%'' @ q @ ''%''))"
proof -
  have w: "where_title ceq search_query m \<longleftrightarrow>
     (\<forall>q. search_query = Some q \<and> q \<noteq> [] \<longrightarrow> LIKE ceq (Title m) (''%'' @ q @ ''%''))"
    by (auto simp: where_title_def split: option.splits)
  have g: "(if truthy_int genre_id
            then [Some mg. mg \<leftarrow> Movie_Genre db, mg_Movie_ID mg = Movie_ID m,
                           Some (mg_Genre_ID mg) = genre_id]
            else [None]) \<noteq> [] \<longleftrightarrow>
     (\<forall>g. genre_id = Some g \<and> g \<noteq> 0 \<longrightarrow> has_genre db (Movie_ID m) g)"
    by (auto simp: truthy_int_def has_genre_def split: option.splits)
  obtain r rs where r: "left_join [r \<leftarrow> Reviews db. r_Movie_ID r = Some (Movie_ID m)] = r # rs"
    by (cases "left_join [r \<leftarrow> Reviews db. r_Movie_ID r = Some (Movie_ID m)]") auto
  show ?thesis
    unfolding w [symmetric] g [symmetric] filtered_join_def r
    by auto
qed

lemma set_get_movies_filtered:
  "set (get_movies_filtered ceq weight db genre_id search_query) =
     filtered_select ceq db genre_id search_query `
       {m \<in> set (Movie db). filtered_join ceq db genre_id search_query m \<noteq> []}"
  by (simp add: get_movies_filtered_def)

lemma filtered_select_movie [simp]:
  "Movie_ID (filtered_select ceq db genre_id search_query m) = Movie_ID m"
  "Title (filtered_select ceq db genre_id search_query m) = Title m"
  by (simp_all add: filtered_select_def Let_def)

lemma sorted_get_movies_filtered:
  "sorted (map (\<lambda>row. weight (Title row)) (get_movies_filtered ceq weight db genre_id search_query))"
  by (simp add: get_movies_filtered_def)

text \<open>The joined rows of the friend statement, and what its aggregates count.\<close>

lemma set_friend_join:
  "set (friend_join db u m) =
     {(r, f). r \<in> set (Reviews db) \<and> r_Movie_ID r = Some (Movie_ID m) \<and> f \<in> set (Friends db) \<and>
        ((User_ID1 f = u \<and> User_ID2 f = r_User_ID r) \<or>
         (User_ID2 f = u \<and> User_ID1 f = r_User_ID r)) \<and> Score r \<ge> 7}"
  by (auto simp: friend_join_def split: if_splits)

lemma friend_case_joined:
  "(r, f) \<in> set (friend_join db u m) \<Longrightarrow> friend_case u f = Some (r_User_ID r)"
  by (auto simp: set_friend_join friend_case_def)

lemma set_non_null: "set (non_null xs) = {x. Some x \<in> set xs}"
  by (auto simp: non_null_def List.map_filter_def) force

lemma COUNT_DISTINCT_card: "COUNT_DISTINCT xs = card {x. Some x \<in> set xs}"
  by (simp add: COUNT_DISTINCT_def length_remdups_card_conv set_non_null)

lemma set_friend_reviews:
  "set (friend_reviews db u mid) =
     {r \<in> set (Reviews db). r_Movie_ID r = Some mid \<and> Score r \<ge> 7 \<and>
        (\<exists>f \<in> set (Friends db). (User_ID1 f = u \<and> User_ID2 f = r_User_ID r) \<or>
                                 (User_ID2 f = u \<and> User_ID1 f = r_User_ID r))}"
  by (auto simp: friend_reviews_def are_friends_iff)

lemma fst_friend_join: "fst ` set (friend_join db u m) = set (friend_reviews db u (Movie_ID m))"
proof (intro set_eqI iffI)
  fix r assume "r \<in> fst ` set (friend_join db u m)"
  then obtain f where "(r, f) \<in> set (friend_join db u m)" by auto
  then show "r \<in> set (friend_reviews db u (Movie_ID m))"
    unfolding set_friend_join set_friend_reviews by blast
next
  fix r assume "r \<in> set (friend_reviews db u (Movie_ID m))"
  then obtain f where "(r, f) \<in> set (friend_join db u m)"
    unfolding set_friend_join set_friend_reviews by blast
  then show "r \<in> fst ` set (friend_join db u m)" by force
qed

lemma friend_case_values:
  "{x. Some x \<in> set (map (\<lambda>(r, f). friend_case u f) (friend_join db u m))} =
     friends_who_liked db u (Movie_ID m)"
proof -
  have "{x. Some x \<in> set (map (\<lambda>(r, f). friend_case u f) (friend_join db u m))} =
        r_User_ID ` fst ` set (friend_join db u m)"
  proof (intro set_eqI iffI)
    fix x assume "x \<in> {x. Some x \<in> set (map (\<lambda>(r, f). friend_case u f) (friend_join db u m))}"
    then obtain r f where rf: "(r, f) \<in> set (friend_join db u m)" and "Some x = friend_case u f"
      by auto
    with friend_case_joined [OF rf] have "x = r_User_ID (fst (r, f))" by simp
    with rf show "x \<in> r_User_ID ` fst ` set (friend_join db u m)" by blast
  next
    fix x assume "x \<in> r_User_ID ` fst ` set (friend_join db u m)"
    then obtain r f where rf: "(r, f) \<in> set (friend_join db u m)" and "x = r_User_ID r"
      by auto
    with friend_case_joined [OF rf] have "Some x = (\<lambda>(r, f). friend_case u f) (r, f)" by simp
    with rf have "Some x \<in> (\<lambda>(r, f). friend_case u f) ` set (friend_join db u m)"
      by (rule_tac image_eqI)
    then show "x \<in> {x. Some x \<in> set (map (\<lambda>(r, f). friend_case u f) (friend_join db u m))}"
      by simp
  qed
  then show ?thesis
    by (simp add: fst_friend_join friends_who_liked_def)
qed

lemma friend_likes_select:
  "friend_likes (friend_select db u m) = card (friends_who_liked db u (Movie_ID m))"
  using friend_case_values [of u db m]
  by (simp add: friend_select_def Let_def COUNT_DISTINCT_card)

lemma friend_join_nonempty:
  "friend_join db u m \<noteq> [] \<longleftrightarrow> friends_who_liked db u (Movie_ID m) \<noteq> {}"
proof -
  have "friend_join db u m \<noteq> [] \<longleftrightarrow> fst ` set (friend_join db u m) \<noteq> {}"
    by simp
  then show ?thesis
    by (simp add: fst_friend_join friends_who_liked_def)
qed

lemma distinct_map_filter_le1:
  "distinct (map k xs) \<Longrightarrow> length [x \<leftarrow> xs. k x = c] \<le> 1"
  by (induction xs) (auto simp: filter_empty_conv image_iff)

lemma length_filter_mono:
  "(\<And>x. x \<in> set xs \<Longrightarrow> P x \<Longrightarrow> Q x) \<Longrightarrow> length (filter P xs) \<le> length (filter Q xs)"
  by (induction xs) auto

lemma stored_once_links:
  assumes "stored_once db"
  shows "length [f \<leftarrow> Friends db. (User_ID1 f = u \<and> User_ID2 f = v) \<or>
                                   (User_ID2 f = u \<and> User_ID1 f = v)] \<le> 1"
proof -
  let ?k = "\<lambda>f. (min (User_ID1 f) (User_ID2 f), max (User_ID1 f) (User_ID2 f))"
  have "length [f \<leftarrow> Friends db. (User_ID1 f = u \<and> User_ID2 f = v) \<or>
                                   (User_ID2 f = u \<and> User_ID1 f = v)]
        \<le> length [f \<leftarrow> Friends db. ?k f = (min u v, max u v)]"
    by (rule length_filter_mono) (auto simp: min_def max_def)
  also have "\<dots> \<le> 1"
    using assms unfolding stored_once_def by (rule distinct_map_filter_le1)
  finally show ?thesis .
qed

lemma fst_inner_replicate:
  "map fst [(r, f). f \<leftarrow> fs, P f, S] = (if S then replicate (length (filter P fs)) r else [])"
  by (induction fs) auto

lemma replicate_le1: "n \<le> 1 \<Longrightarrow> replicate n r = (if n = 0 then [] else [r])"
  by (cases n) auto

lemma fst_inner_join:
  assumes "length (filter P fs) \<le> 1"
  shows "map fst [(r, f). f \<leftarrow> fs, P f, S] = (if S \<and> (\<exists>f \<in> set fs. P f) then [r] else [])"
proof -
  have "(length (filter P fs) = 0) = (\<not> (\<exists>f \<in> set fs. P f))"
    by (simp add: filter_empty_conv)
  then show ?thesis
    unfolding fst_inner_replicate replicate_le1 [OF assms] by simp
qed

lemma concat_map_if_singleton:
  "concat (map (\<lambda>r. if Q r then [r] else []) rs) = filter Q rs"
  by (induction rs) auto

lemma fst_outer_join:
  assumes "\<And>r. length (filter (L r) fs) \<le> 1"
  shows "map fst [(r, f). r \<leftarrow> rs, C r, f \<leftarrow> fs, L r f, S r] =
         [r \<leftarrow> rs. C r \<and> S r \<and> (\<exists>f \<in> set fs. L r f)]"
proof -
  have "map fst [(r, f). r \<leftarrow> rs, C r, f \<leftarrow> fs, L r f, S r] =
        concat (map (\<lambda>r. if C r then map fst [(r, f). f \<leftarrow> fs, L r f, S r] else []) rs)"
    by (induction rs) simp_all
  also have "\<dots> = concat (map (\<lambda>r. if C r \<and> S r \<and> (\<exists>f \<in> set fs. L r f) then [r] else []) rs)"
    unfolding fst_inner_join [OF assms]
    by (rule arg_cong [where f = concat]) (rule map_cong, simp_all)
  also have "\<dots> = [r \<leftarrow> rs. C r \<and> S r \<and> (\<exists>f \<in> set fs. L r f)]"
    by (rule concat_map_if_singleton)
  finally show ?thesis .
qed

lemma map_fst_friend_join:
  assumes "stored_once db"
  shows "map fst (friend_join db u m) = friend_reviews db u (Movie_ID m)"
proof -
  have "map fst (friend_join db u m) =
        [r \<leftarrow> Reviews db. r_Movie_ID r = Some (Movie_ID m) \<and> Score r \<ge> 7 \<and>
           (\<exists>f \<in> set (Friends db). (User_ID1 f = u \<and> User_ID2 f = r_User_ID r) \<or>
                                    (User_ID2 f = u \<and> User_ID1 f = r_User_ID r))]"
    unfolding friend_join_def
    by (rule fst_outer_join) (rule stored_once_links [OF assms])
  also have "\<dots> = friend_reviews db u (Movie_ID m)"
    unfolding friend_reviews_def are_friends_iff
    by (rule filter_cong) auto
  finally show ?thesis .
qed

lemma AVG_Some: "AVG (map (\<lambda>x. Some (f x)) xs) = mean (map f xs)"
  by (simp add: AVG_def mean_def non_null_def List.map_filter_def comp_def filter_map Let_def)

lemma avg_rating_select:
  assumes "stored_once db"
  shows "avg_rating (friend_select db u m) = friend_average db u (Movie_ID m)"
proof -
  have "map (\<lambda>(r, f). Some (Score r)) (friend_join db u m) =
        map (\<lambda>r. Some (Score r)) (map fst (friend_join db u m))"
    by (simp add: case_prod_beta)
  then have "AVG (map (\<lambda>(r, f). Some (Score r)) (friend_join db u m)) =
        mean (map Score (friend_reviews db u (Movie_ID m)))"
    by (simp only: AVG_Some map_fst_friend_join [OF assms])
  then show ?thesis
    by (simp add: friend_select_def Let_def friend_average_def ROUND2_def)
qed

lemma set_friend_ranking:
  "set (friend_ranking db u) = friend_select db u ` set (friend_candidates db u)"
  by (simp add: friend_ranking_def)

lemma friend_candidates_iff:
  "m \<in> set (friend_candidates db u) \<longleftrightarrow>
     m \<in> set (Movie db) \<and> friends_who_liked db u (Movie_ID m) \<noteq> {} \<and>
     \<not> has_reviewed db u (Movie_ID m)"
  by (auto simp: friend_candidates_def friend_join_nonempty set_reviewed_movie_ids)

lemma sorted_friend_ranking:
  "sorted_wrt (\<lambda>a b. (friend_likes a, avg_rating a) \<ge> (friend_likes b, avg_rating b))
     (friend_ranking db u)"
  using sorted_order_by_desc [of friend_key] by (simp add: friend_ranking_def friend_key_def)

text \<open>What the handlers read from the store.\<close>

lemma get_review_by_id_found:
  assumes "\<exists>r \<in> set (Reviews (data c)). Review_ID r = review_id"
  shows "\<exists>r \<in> set (Reviews (data c)). Review_ID r = review_id \<and>
           get_review_by_id review_id c = (Some r, execute_query_read (SELECT_Reviews review_id) c)"
proof -
  from assms have "[r \<leftarrow> Reviews (data c). Review_ID r = review_id] \<noteq> []"
    by (simp add: filter_empty_conv)
  then obtain r rest where e: "[r \<leftarrow> Reviews (data c). Review_ID r = review_id] = r # rest"
    by (cases "[r \<leftarrow> Reviews (data c). Review_ID r = review_id]") auto
  then have "r \<in> set [r \<leftarrow> Reviews (data c). Review_ID r = review_id]" by simp
  then have "r \<in> set (Reviews (data c))" "Review_ID r = review_id" by simp_all
  moreover from e have "get_review_by_id review_id c =
      (Some r, execute_query_read (SELECT_Reviews review_id) c)"
    by (simp add: get_review_by_id_def)
  ultimately show ?thesis by blast
qed

lemma get_review_by_id_missing:
  assumes "\<forall>r \<in> set (Reviews (data c)). Review_ID r \<noteq> review_id"
  shows "get_review_by_id review_id c = (None, execute_query_read (SELECT_Reviews review_id) c)"
proof -
  from assms have "[r \<leftarrow> Reviews (data c). Review_ID r = review_id] = []"
    by (simp add: filter_empty_conv)
  then show ?thesis by (simp add: get_review_by_id_def)
qed

lemma get_user_by_email_found:
  assumes "\<exists>u \<in> set (User (data c)). seq (Email u) email"
  shows "\<exists>u. get_user_by_email seq email c = (Some u, execute_query_read (SELECT_User email) c)"
proof -
  from assms have "[u \<leftarrow> User (data c). seq (Email u) email] \<noteq> []"
    by (simp add: filter_empty_conv)
  then obtain u rest where "[u \<leftarrow> User (data c). seq (Email u) email] = u # rest"
    by (cases "[u \<leftarrow> User (data c). seq (Email u) email]") auto
  then show ?thesis
    by (simp add: get_user_by_email_def)
qed

lemma register_session: "fst (snd (register sp seq s req c)) = s"
  by (simp add: register_def register_form_def Let_def
      split: option.splits prod.splits sum.splits if_splits)

lemma register_existing_email:
  assumes "request_method req = POST" and "form_email req = Some email"
    and "\<exists>u \<in> set (User (data c)). seq (Email u) email"
  shows "register sp seq s req c = (register_error ''Please fill in all required fields.'', s, c) \<or>
         register sp seq s req c = (register_error ''Passwords do not match.'', s, c) \<or>
         register sp seq s req c = (register_error ''Age must be between 13 and 120.'', s, c) \<or>
         register sp seq s req c =
           (register_error ''Email already registered.'', s,
            execute_query_read (SELECT_User email) c)"
proof -
  from assms(3) obtain u where
    "get_user_by_email seq email c = (Some u, execute_query_read (SELECT_User email) c)"
    using get_user_by_email_found by blast
  with assms(1,2) show ?thesis
    by (simp add: register_def split: option.splits)
qed

text \<open>The joined rows of the preference statement: every review row once for each preference row.\<close>

lemma non_null_Nil [simp]: "non_null [] = []"
  by (simp add: non_null_def List.map_filter_def)

lemma non_null_append: "non_null (xs @ ys) = non_null xs @ non_null ys"
  by (simp add: non_null_def List.map_filter_def)

lemma non_null_const_Some: "non_null (map (\<lambda>y. Some v) ys) = replicate (length ys) v"
  by (induction ys) (simp_all add: non_null_def List.map_filter_def)

lemma non_null_const_None: "non_null (map (\<lambda>y. None) ys) = []"
  by (induction ys) (simp_all add: non_null_def List.map_filter_def)

lemma non_null_product_fst_Some:
  "non_null (map (\<lambda>(a, b). map_option f a) (List.product (map Some xs) ys)) =
     concat (map (\<lambda>x. replicate (length ys) (f x)) xs)"
  by (induction xs) (simp_all add: non_null_append comp_def non_null_const_Some)

lemma non_null_product_fst:
  "non_null (map (\<lambda>(a, b). map_option f a) (List.product (left_join xs) ys)) =
     concat (map (\<lambda>x. replicate (length ys) (f x)) xs)"
proof (cases "xs = []")
  case True
  then show ?thesis
    by (simp add: left_join_def comp_def non_null_const_None)
next
  case False
  then show ?thesis
    by (simp add: left_join_def non_null_product_fst_Some)
qed

lemma non_null_product_snd:
  "non_null (map (\<lambda>(a, b). map_option g b) (List.product xs (left_join ys))) =
     concat (map (\<lambda>x. map g ys) xs)"
proof (induction xs)
  case Nil
  then show ?case by (simp add: non_null_def List.map_filter_def)
next
  case (Cons x xs)
  have "(\<lambda>(a, b). map_option g b) \<circ> Pair x = map_option g"
    by (simp add: fun_eq_iff)
  with Cons show ?case
    by (simp add: non_null_append non_null_left_join)
qed

lemma length_left_join: "length (left_join ys) = max 1 (length ys)"
  by (cases ys) (simp_all add: left_join_def)

lemma length_concat_replicate:
  "length (concat (map (\<lambda>x. replicate k (f x)) xs)) = length xs * k"
  by (induction xs) simp_all

lemma sum_list_concat_replicate:
  "sum_list (concat (map (\<lambda>x. replicate k (f x)) xs)) = of_nat k * sum_list (map f xs)"
  for f :: "'a \<Rightarrow> rat"
  by (induction xs) (simp_all add: sum_list_replicate algebra_simps)

lemma mean_concat_replicate:
  "k \<noteq> 0 \<Longrightarrow> mean (concat (map (\<lambda>x. replicate k (f x)) xs)) = mean (map f xs)"
  by (simp add: mean_def length_concat_replicate sum_list_concat_replicate)

lemma AVG_mean: "AVG xs = mean (non_null xs)"
  by (simp add: AVG_def mean_def Let_def)

lemma comprehension_two_guards:
  "[f x. x \<leftarrow> xs, P x, Q x] = map f [x \<leftarrow> xs. Q x \<and> P x]"
  by (induction xs) simp_all

lemma genre_preferences_eq:
  "genre_preferences db u mid =
     map Preference_Score [up \<leftarrow> User_Preferences db.
        up_Genre_ID up \<in> set (movie_genre_ids db mid) \<and> up_User_ID up = u]"
  unfolding genre_preferences_def by (rule comprehension_two_guards)

lemma rec_count_eq:
  "rec_count db u m =
     movie_review_count db (Movie_ID m) * max 1 (length (genre_preferences db u (Movie_ID m)))"
  by (simp add: rec_count_def COUNT_def recommendation_join_def non_null_product_fst
      length_concat_replicate length_left_join movie_review_count_def movie_reviews_def
      genre_preferences_eq)

lemma rec_avg_eq: "rec_avg db u m = movie_average_rating db (Movie_ID m)"
proof -
  have "length (left_join [up \<leftarrow> User_Preferences db.
          up_Genre_ID up \<in> set (movie_genre_ids db (Movie_ID m)) \<and> up_User_ID up = u]) \<noteq> 0"
    by simp
  from mean_concat_replicate [OF this] show ?thesis
    by (simp only: rec_avg_def AVG_mean recommendation_join_def non_null_product_fst
        movie_average_rating_def movie_reviews_def)
qed

lemma fold_max_Max: "fold max vs (v :: rat) = Max (set (v # vs))"
  by (rule Max.set_eq_fold [symmetric])

lemma set_concat_const: "xs \<noteq> [] \<Longrightarrow> set (concat (map (\<lambda>x. ys) xs)) = set ys"
  by (cases xs) auto

lemma MAX_of_Max:
  "MAX_of xs = (if non_null xs = [] then None else Some (Max (set (non_null xs))))"
  by (simp add: MAX_of_def fold_max_Max split: list.splits)

lemma concat_const_Nil: "concat (map (\<lambda>x. ys) xs) = [] \<longleftrightarrow> xs = [] \<or> ys = []"
  by (cases xs) auto

lemma rec_max_preference_eq:
  "rec_max_preference db u m = preference_score db u (Movie_ID m)"
proof -
  let ?ps = "genre_preferences db u (Movie_ID m)"
  let ?rs = "left_join [r \<leftarrow> Reviews db. r_Movie_ID r = Some (Movie_ID m)]"
  have n: "non_null (map (\<lambda>(r, up). map_option Preference_Score up) (recommendation_join db u m)) =
        concat (map (\<lambda>x. ?ps) ?rs)"
    by (simp add: recommendation_join_def non_null_product_snd genre_preferences_eq)
  have e: "concat (map (\<lambda>x. ?ps) ?rs) = [] \<longleftrightarrow> ?ps = []"
    by (simp only: concat_const_Nil) simp
  have s: "set (concat (map (\<lambda>x. ?ps) ?rs)) = set ?ps"
    by (rule set_concat_const) simp
  show ?thesis
  proof (cases ?ps)
    case Nil
    with e show ?thesis
      by (simp add: rec_max_preference_def MAX_of_Max n COALESCE_def preference_score_def)
  next
    case (Cons w ws)
    with e have "concat (map (\<lambda>x. ?ps) ?rs) \<noteq> []" by simp
    with s Cons show ?thesis
      by (simp add: rec_max_preference_def MAX_of_Max n COALESCE_def preference_score_def
          fold_max_Max)
  qed
qed

lemma set_recommendation_ranking:
  "set (recommendation_ranking db u) = {m \<in> set (Movie db). \<not> has_reviewed db u (Movie_ID m)}"
  by (auto simp: recommendation_ranking_def recommendation_candidates_def set_reviewed_movie_ids)

lemma recommendation_key_eq:
  "recommendation_key db u m =
     (preference_score db u (Movie_ID m), movie_average_rating db (Movie_ID m),
      movie_review_count db (Movie_ID m) * max 1 (length (genre_preferences db u (Movie_ID m))))"
  by (simp add: recommendation_key_def rec_max_preference_eq rec_avg_eq rec_count_eq)

lemma sorted_recommendation_ranking:
  "sorted_wrt (\<lambda>a b. recommendation_key db u a \<ge> recommendation_key db u b)
     (recommendation_ranking db u)"
  unfolding recommendation_ranking_def by (rule sorted_order_by_desc)

lemma recommendation_ranking_preference:
  assumes "i < j" and "j < length (recommendation_ranking db u)"
  shows "preference_score db u (Movie_ID (recommendation_ranking db u ! i)) \<ge>
         preference_score db u (Movie_ID (recommendation_ranking db u ! j))"
proof -
  from sorted_recommendation_ranking assms
  have "recommendation_key db u (recommendation_ranking db u ! i) \<ge>
        recommendation_key db u (recommendation_ranking db u ! j)"
    by (simp add: sorted_wrt_iff_nth_less)
  then show ?thesis
    by (auto simp: recommendation_key_eq less_eq_prod_def)
qed

text \<open>The checks of \<open>add_review\<close>, one at a time.\<close>

lemma add_review_not_logged_in:
  "user_id s = None \<Longrightarrow>
   login_required (add_review sp) s req c =
     (\<lparr>response = Redirect Login,
       flashed = [(Text ''Please log in to access this page.'', ''error'')]\<rparr>, s, c)"
  by (simp add: login_required_def)

lemma add_review_targets:
  assumes "request_method req = POST"
    and "truthy_int (parse_id (form_movie_id req)) = truthy_int (parse_id (form_show_id req))"
  shows "\<exists>msg. add_review sp s req c = (reject req msg, s, c)"
proof (cases "truthy_int (parse_id (form_movie_id req))")
  case True
  with assms show ?thesis by (simp add: add_review_def Let_def) blast
next
  case False
  with assms show ?thesis by (simp add: add_review_def Let_def) blast
qed

lemma add_review_fields:
  assumes "request_method req = POST"
    and "form_title req = None \<or> form_title req = Some [] \<or> form_score req = None \<or>
         form_score req = Some (Finite 0) \<or> form_score req = Some PosInf \<or>
         form_score req = Some NegInf \<or>
         (\<exists>q. form_score req = Some (Finite q) \<and> (q < 0 \<or> 10 < q))"
  shows "\<exists>msg. add_review sp s req c = (reject req msg, s, c)"
proof (cases "truthy_int (parse_id (form_movie_id req)) = truthy_int (parse_id (form_show_id req))")
  case True
  with assms(1) show ?thesis by (rule add_review_targets)
next
  case False
  then have x: "\<not> (truthy_int (parse_id (form_movie_id req)) \<and> truthy_int (parse_id (form_show_id req)))"
    "\<not> (\<not> truthy_int (parse_id (form_movie_id req)) \<and> \<not> truthy_int (parse_id (form_show_id req)))"
    by auto
  from assms(2) consider
      (t1) "form_title req = None" | (t2) "form_title req = Some []"
    | (s0) "form_score req = None" | (s1) "form_score req = Some (Finite 0)"
    | (s2) "form_score req = Some PosInf" | (s3) "form_score req = Some NegInf"
    | (s4) q where "form_score req = Some (Finite q)" "q < 0 \<or> 10 < q"
    by auto
  then show ?thesis
  proof cases
    case t1
    with assms(1) x show ?thesis
      by (cases "form_score req") (auto simp: add_review_def Let_def)
  next
    case t2
    with assms(1) x show ?thesis
      by (cases "form_score req") (auto simp: add_review_def Let_def)
  next
    case s0
    with assms(1) x show ?thesis by (auto simp: add_review_def Let_def)
  next
    case s1
    with assms(1) x show ?thesis
      by (cases "form_title req") (auto simp: add_review_def Let_def)
  next
    case s2
    with assms(1) x show ?thesis
      by (cases "form_title req") (auto simp: add_review_def Let_def)
  next
    case s3
    with assms(1) x show ?thesis
      by (cases "form_title req") (auto simp: add_review_def Let_def)
  next
    case s4
    with assms(1) x show ?thesis
      by (cases "form_title req") (auto simp: add_review_def Let_def)
  qed
qed

section \<open>The claims\<close>

subsection \<open>Friendship is symmetric\<close>

text \<open>
  Claim C4. For all users \<open>a\<close> and \<open>b\<close> and every state of the tables,
  \<open>are_friends a b\<close> and \<open>are_friends b a\<close> agree, \<open>are_friends\<close> is true exactly when
  \<^verbatim>\<open>Friends\<close> has a row for the pair in one of the two orientations, and after a row
  \<open>(a, b)\<close> is added both \<open>are_friends a b\<close> and \<open>are_friends b a\<close> hold.
\<close>

theorem are_friends_symmetric:
  "are_friends db a b = are_friends db b a \<and>
   (are_friends db a b \<longleftrightarrow>
      (\<exists>f \<in> set (Friends db). (User_ID1 f = a \<and> User_ID2 f = b) \<or>
                               (User_ID1 f = b \<and> User_ID2 f = a))) \<and>
   are_friends (db\<lparr>Friends := Friends db @ [\<lparr>User_ID1 = a, User_ID2 = b\<rparr>]\<rparr>) a b \<and>
   are_friends (db\<lparr>Friends := Friends db @ [\<lparr>User_ID1 = a, User_ID2 = b\<rparr>]\<rparr>) b a"
  by (auto simp: are_friends_iff)

text \<open>In the example, 1 and 4 are stored as (4, 1), 1 and 2 as (1, 2); 1 and 3 are not stored.\<close>

theorem are_friends_symmetric_witness:
  "are_friends db_friends 1 4 \<and> are_friends db_friends 4 1 \<and>
   are_friends db_friends 1 2 \<and> are_friends db_friends 2 1 \<and>
   are_friends db_friends 1 3 = False \<and> are_friends db_friends 3 1 = False"
proof -
  have a: "are_friends db_friends 4 1" by code_simp
  have b: "are_friends db_friends 1 2" by code_simp
  have c: "are_friends db_friends 1 3 = False" by code_simp
  from are_friends_symmetric [of db_friends 1 4] a have a': "are_friends db_friends 1 4" by simp
  from are_friends_symmetric [of db_friends 1 2] b have b': "are_friends db_friends 2 1" by simp
  from are_friends_symmetric [of db_friends 1 3] c have c': "are_friends db_friends 3 1 = False" by simp
  from a a' b b' c c' show ?thesis by simp
qed

subsection \<open>No recommendation of a reviewed movie\<close>

text \<open>
  Claim C3. For every user, state and limit, neither the list of
  \<open>get_movie_recommendations\<close> nor the list of \<open>get_friend_recommendations\<close> has a movie
  for which the user has written a review.
\<close>

theorem recommendations_exclude_reviewed:
  "(get_movie_recommendations db u n = Inr rows \<longrightarrow>
      (\<forall>row \<in> set rows. \<not> has_reviewed db u (Movie_ID row))) \<and>
   (get_friend_recommendations db u n = Inr frows \<longrightarrow>
      (\<forall>row \<in> set frows. \<not> has_reviewed db u (Movie_ID row)))"
  using movie_recommendations_not_reviewed friend_recommendations_not_reviewed by blast

text \<open>
  In the example user 1 has reviewed Gamma (movie 3), which a friend liked: both lists
  are Alpha and Beta.
\<close>

theorem recommendations_exclude_reviewed_witness:
  "get_movie_recommendations db_friends 1 10 =
     Inr [\<lparr>Movie_ID = 1, Title = ''Alpha'', Year = 2001, review_count = 3,
           avg_rating = Some (797 / 100), max_preference_score = 0\<rparr>,
          \<lparr>Movie_ID = 2, Title = ''Beta'', Year = 2002, review_count = 2,
           avg_rating = Some (9 / 2), max_preference_score = 0\<rparr>] \<and>
   get_friend_recommendations db_friends 1 10 =
     Inr [\<lparr>Movie_ID = 2, Title = ''Beta'', Year = 2002, review_count = 1,
           avg_rating = Some 8, friend_likes = 1, content_type = ''movie''\<rparr>,
          \<lparr>Movie_ID = 1, Title = ''Alpha'', Year = 2001, review_count = 1,
           avg_rating = Some 7, friend_likes = 1, content_type = ''movie''\<rparr>] \<and>
   has_reviewed db_friends 1 3 \<and>
   \<not> has_reviewed db_friends 1 1 \<and> \<not> has_reviewed db_friends 1 2"
proof -
  have m: "get_movie_recommendations db_friends 1 10 =
     Inr [\<lparr>Movie_ID = 1, Title = ''Alpha'', Year = 2001, review_count = 3,
           avg_rating = Some (797 / 100), max_preference_score = 0\<rparr>,
          \<lparr>Movie_ID = 2, Title = ''Beta'', Year = 2002, review_count = 2,
           avg_rating = Some (9 / 2), max_preference_score = 0\<rparr>]"
    by code_simp
  have f: "get_friend_recommendations db_friends 1 10 =
     Inr [\<lparr>Movie_ID = 2, Title = ''Beta'', Year = 2002, review_count = 1,
           avg_rating = Some 8, friend_likes = 1, content_type = ''movie''\<rparr>,
          \<lparr>Movie_ID = 1, Title = ''Alpha'', Year = 2001, review_count = 1,
           avg_rating = Some 7, friend_likes = 1, content_type = ''movie''\<rparr>]"
    by code_simp
  have r: "has_reviewed db_friends 1 3" by code_simp
  from m recommendations_exclude_reviewed [of db_friends 1 10]
  have "\<not> has_reviewed db_friends 1 1"
    by fastforce
  moreover from f recommendations_exclude_reviewed [of db_friends 1 10]
  have "\<not> has_reviewed db_friends 1 2"
    by fastforce
  ultimately show ?thesis using m f r by simp
qed

subsection \<open>Two popularity formulas\<close>



subsection \<open>Filtering the movie catalog\<close>

text \<open>
  Claim C7 says that a text filter keeps the movies whose title contains the search
  string as a substring. The statement puts the search string between two \<^verbatim>\<open>%\<close> and
  compares with \<^verbatim>\<open>LIKE\<close> without escaping it: with the search string \<^verbatim>\<open>_\<close> every movie
  with a non-empty title is returned, also Up, whose title has no underscore.
\<close>

theorem movies_filtered_underscore_matches_all:
  "map Title (get_movies_filtered (=) id db_catalog None (Some ''_'')) =
     [''Cats'', ''Heat'', ''Se7en'', ''Up''] \<and>
   contains (=) ''Up'' ''_'' = False"
  by code_simp

theorem movies_filtered_underscore_matches_all_witness:
  "length (get_movies_filtered (=) id db_catalog None (Some ''_'')) = 4 \<and>
   contains (=) ''Up'' ''_'' = False"
proof -
  from movies_filtered_underscore_matches_all
  have "length (map Title (get_movies_filtered (=) id db_catalog None (Some ''_''))) =
          length [''Cats'', ''Heat'', ''Se7en'', ''Up'']"
    by (simp only:)
  hence "length (get_movies_filtered (=) id db_catalog None (Some ''_'')) = 4"
    by simp
  with movies_filtered_underscore_matches_all show ?thesis by simp
qed

subsection \<open>Recommendations from the friends' reviews\<close>

text \<open>
  Claim C2 says that candidates with equal \<open>friend_likes\<close> are ordered by the movie's
  own average rating. The statement orders by its column \<open>avg_rating\<close>, which it
  computes over the joined rows, where the join with \<^verbatim>\<open>Friends\<close> and the condition on
  the score have left only the reviews of friends with a score of at least 7.0. In the
  example one friend liked Alpha and one liked Beta; Beta, with an average of 4.5 over
  all its reviews, comes before Alpha, with an average of 239/30, because the friend
  gave Beta 8 and Alpha 7, and the rows show 8 and 7 as \<open>avg_rating\<close>.
\<close>

theorem friend_recommendations_friend_average:
  "get_friend_recommendations db_friends 1 10 =
     Inr [\<lparr>Movie_ID = 2, Title = ''Beta'', Year = 2002, review_count = 1,
           avg_rating = Some 8, friend_likes = 1, content_type = ''movie''\<rparr>,
          \<lparr>Movie_ID = 1, Title = ''Alpha'', Year = 2001, review_count = 1,
           avg_rating = Some 7, friend_likes = 1, content_type = ''movie''\<rparr>] \<and>
   movie_average_rating db_friends 2 = Some (9 / 2) \<and>
   movie_average_rating db_friends 1 = Some (239 / 30)"
  by code_simp

theorem friend_recommendations_friend_average_witness:
  "get_friend_recommendations db_friends 1 10 \<noteq> Inl Error \<and>
   movie_average_rating db_friends 2 < movie_average_rating db_friends 1"
  using friend_recommendations_friend_average by simp

subsection \<open>Validation of a new review\<close>

text \<open>
  Claim C5 says that a request to add a review whose score is not in the range from 0
  to 10 is rejected before any call to the store. The handler reads the score with
  \<^verbatim>\<open>type=float\<close> and tests \<^verbatim>\<open>score < 0 or score > 10\<close>: for the text \<^verbatim>\<open>nan\<close> both
  comparisons are false, the score is true for \<^verbatim>\<open>all\<close>, and \<^verbatim>\<open>sp_add_review\<close> is called with
  it. The theorem: for a logged-in user and a request with the score \<^verbatim>\<open>nan\<close>, a title
  and a movie, whatever the procedure does, the call of \<^verbatim>\<open>sp_add_review\<close> is sent over
  the connection.
\<close>

theorem add_review_nan_reaches_procedure:
  "\<exists>ev. sent (snd (snd (login_required (add_review sp) session_user1 post_review_nan c))) =
          sent c @ [Callproc ''sp_add_review'', ev]"
  by (cases "sp (1, Some 1, None, NaN, ''Fine'', None) (data c)")
     (auto simp: login_required_def add_review_def session_user1_def post_review_nan_def
        parse_id_def truthy_int_def nonzero_def create_review_def execute_procedure_def)

text \<open>
  With the procedure of the specification the call fails and is rolled back. The same
  request with the score 11 is rejected with nothing sent.
\<close>

theorem add_review_nan_reaches_procedure_witness:
  "login_required (add_review sp_add_review) session_user1 post_review_nan conn_catalog =
     (reject post_review_nan ''Failed to add review. You may have already reviewed this content.'',
      session_user1, \<lparr>data = db_catalog, sent = [Callproc ''sp_add_review'', Rollback]\<rparr>) \<and>
   hd (sent (snd (snd (login_required (add_review sp_add_review) session_user1 post_review_nan
                         conn_catalog)))) = Callproc ''sp_add_review'' \<and>
   login_required (add_review sp_add_review) session_user1 post_review_11 conn_catalog =
     (reject post_review_11 ''Score must be between 0 and 10.'', session_user1, conn_catalog)"
proof -
  have a: "login_required (add_review sp_add_review) session_user1 post_review_nan conn_catalog =
     (reject post_review_nan ''Failed to add review. You may have already reviewed this content.'',
      session_user1, \<lparr>data = db_catalog, sent = [Callproc ''sp_add_review'', Rollback]\<rparr>)"
    by code_simp
  have b: "login_required (add_review sp_add_review) session_user1 post_review_11 conn_catalog =
     (reject post_review_11 ''Score must be between 0 and 10.'', session_user1, conn_catalog)"
    by code_simp
  have e: "sent conn_catalog = []" by (simp add: conn_catalog_def)
  from add_review_nan_reaches_procedure [of sp_add_review conn_catalog] e
  have "hd (sent (snd (snd (login_required (add_review sp_add_review) session_user1
                         post_review_nan conn_catalog)))) = Callproc ''sp_add_review''"
    by auto
  with a b show ?thesis by simp
qed

subsection \<open>Only the author edits or deletes a review\<close>

text \<open>
  Claim C6. For a logged-in user and a review that exists and is not the user's,
  \<open>edit_review\<close> and \<open>delete_review\<close> answer with the redirect to the profile and the
  message that only one's own reviews can be edited or deleted; when no review has the
  id they answer with the message that the review was not found, which is a different
  reply. In both cases the one statement sent is the \<^verbatim>\<open>SELECT\<close> that reads the review,
  and the tables are unchanged.
\<close>

theorem edit_delete_owner_only:
  assumes "user_id s = Some uid"
  shows
   "((\<exists>r \<in> set (Reviews (data c)). Review_ID r = review_id) \<and>
     (\<forall>r \<in> set (Reviews (data c)). Review_ID r = review_id \<longrightarrow> r_User_ID r \<noteq> uid) \<longrightarrow>
       login_required (edit_review score_column review_id) s req c =
         (to_profile ''You can only edit your own reviews.'', s,
          execute_query_read (SELECT_Reviews review_id) c) \<and>
       login_required (delete_review_handler review_id) s dreq c =
         (to_profile ''You can only delete your own reviews.'', s,
          execute_query_read (SELECT_Reviews review_id) c)) \<and>
    ((\<forall>r \<in> set (Reviews (data c)). Review_ID r \<noteq> review_id) \<longrightarrow>
       login_required (edit_review score_column review_id) s req c =
         (to_profile ''Review not found.'', s, execute_query_read (SELECT_Reviews review_id) c) \<and>
       login_required (delete_review_handler review_id) s dreq c =
         (to_profile ''Review not found.'', s, execute_query_read (SELECT_Reviews review_id) c)) \<and>
    to_profile ''You can only edit your own reviews.'' \<noteq> to_profile ''Review not found.'' \<and>
    to_profile ''You can only delete your own reviews.'' \<noteq> to_profile ''Review not found.'' \<and>
    data (execute_query_read (SELECT_Reviews review_id) c) = data c \<and>
    sent (execute_query_read (SELECT_Reviews review_id) c) =
      sent c @ [Execute (SELECT_Reviews review_id)]"
proof (intro conjI impI)
  assume a: "(\<exists>r \<in> set (Reviews (data c)). Review_ID r = review_id) \<and>
     (\<forall>r \<in> set (Reviews (data c)). Review_ID r = review_id \<longrightarrow> r_User_ID r \<noteq> uid)"
  then obtain r where r: "r_User_ID r \<noteq> uid"
    "get_review_by_id review_id c = (Some r, execute_query_read (SELECT_Reviews review_id) c)"
    using get_review_by_id_found [of c review_id] by blast
  show "login_required (edit_review score_column review_id) s req c =
         (to_profile ''You can only edit your own reviews.'', s,
          execute_query_read (SELECT_Reviews review_id) c)"
    using assms r by (simp add: login_required_def edit_review_def)
  show "login_required (delete_review_handler review_id) s dreq c =
         (to_profile ''You can only delete your own reviews.'', s,
          execute_query_read (SELECT_Reviews review_id) c)"
    using assms r by (simp add: login_required_def delete_review_handler_def)
next
  assume a: "\<forall>r \<in> set (Reviews (data c)). Review_ID r \<noteq> review_id"
  show "login_required (edit_review score_column review_id) s req c =
         (to_profile ''Review not found.'', s, execute_query_read (SELECT_Reviews review_id) c)"
    using assms get_review_by_id_missing [OF a]
    by (simp add: login_required_def edit_review_def)
  show "login_required (delete_review_handler review_id) s dreq c =
         (to_profile ''Review not found.'', s, execute_query_read (SELECT_Reviews review_id) c)"
    using assms get_review_by_id_missing [OF a]
    by (simp add: login_required_def delete_review_handler_def)
next
  show "to_profile ''You can only edit your own reviews.'' \<noteq> to_profile ''Review not found.''"
    by (simp add: to_profile_def)
  show "to_profile ''You can only delete your own reviews.'' \<noteq> to_profile ''Review not found.''"
    by (simp add: to_profile_def)
  show "data (execute_query_read (SELECT_Reviews review_id) c) = data c"
    by (simp add: execute_query_read_def)
  show "sent (execute_query_read (SELECT_Reviews review_id) c) =
      sent c @ [Execute (SELECT_Reviews review_id)]"
    by (simp add: execute_query_read_def)
qed

text \<open>
  In the catalog example review 1 is by user 1: user 2 may neither edit nor delete it,
  user 1 may edit it, and there is no review 9.
\<close>

theorem edit_delete_owner_only_witness:
  "login_required (edit_review finite_score 1) session_user2 post_edit conn_catalog =
     (to_profile ''You can only edit your own reviews.'', session_user2,
      \<lparr>data = db_catalog, sent = [Execute (SELECT_Reviews 1)]\<rparr>) \<and>
   login_required (delete_review_handler 1) session_user2 post_delete conn_catalog =
     (to_profile ''You can only delete your own reviews.'', session_user2,
      \<lparr>data = db_catalog, sent = [Execute (SELECT_Reviews 1)]\<rparr>) \<and>
   login_required (edit_review finite_score 9) session_user2 post_edit conn_catalog =
     (to_profile ''Review not found.'', session_user2,
      \<lparr>data = db_catalog, sent = [Execute (SELECT_Reviews 9)]\<rparr>) \<and>
   fst (login_required (edit_review finite_score 1) session_user1 post_edit conn_catalog) =
     \<lparr>response = Redirect Profile, flashed = [(Text ''Review updated successfully!'', ''success'')]\<rparr>"
proof -
  have u: "user_id session_user2 = Some 2" by (simp add: session_user2_def)
  have e: "\<exists>r \<in> set (Reviews (data conn_catalog)). Review_ID r = 1" by code_simp
  have o: "\<forall>r \<in> set (Reviews (data conn_catalog)). Review_ID r = 1 \<longrightarrow> r_User_ID r \<noteq> 2"
    by code_simp
  have n: "\<forall>r \<in> set (Reviews (data conn_catalog)). Review_ID r \<noteq> 9" by code_simp
  have x: "execute_query_read (SELECT_Reviews 1) conn_catalog =
      \<lparr>data = db_catalog, sent = [Execute (SELECT_Reviews 1)]\<rparr>"
    "execute_query_read (SELECT_Reviews 9) conn_catalog =
      \<lparr>data = db_catalog, sent = [Execute (SELECT_Reviews 9)]\<rparr>"
    by (simp_all add: execute_query_read_def conn_catalog_def)
  have own: "fst (login_required (edit_review finite_score 1) session_user1 post_edit conn_catalog) =
     \<lparr>response = Redirect Profile, flashed = [(Text ''Review updated successfully!'', ''success'')]\<rparr>"
    by code_simp
  from edit_delete_owner_only [OF u, of conn_catalog 1 finite_score post_edit post_delete] e o x
  have a: "login_required (edit_review finite_score 1) session_user2 post_edit conn_catalog =
     (to_profile ''You can only edit your own reviews.'', session_user2,
      \<lparr>data = db_catalog, sent = [Execute (SELECT_Reviews 1)]\<rparr>) \<and>
   login_required (delete_review_handler 1) session_user2 post_delete conn_catalog =
     (to_profile ''You can only delete your own reviews.'', session_user2,
      \<lparr>data = db_catalog, sent = [Execute (SELECT_Reviews 1)]\<rparr>)"
    by simp
  from edit_delete_owner_only [OF u, of conn_catalog 9 finite_score post_edit post_delete] n x
  have b: "login_required (edit_review finite_score 9) session_user2 post_edit conn_catalog =
     (to_profile ''Review not found.'', session_user2,
      \<lparr>data = db_catalog, sent = [Execute (SELECT_Reviews 9)]\<rparr>)"
    by simp
  from a b own show ?thesis by simp
qed

subsection \<open>A second review of the same movie\<close>

text \<open>
  Claim C8. When the user already has a review of the movie, \<open>create_review\<close> for the
  same user and movie raises the error of the procedure, the connection is rolled back,
  and the tables are unchanged. That the procedure fails on a second review is the
  specification's; \<open>execute_procedure\<close> and \<open>create_review\<close> are the code's.
\<close>

theorem second_review_fails:
  assumes "\<exists>r \<in> set (Reviews (data c)). r_User_ID r = u \<and> r_Movie_ID r = Some m"
  shows "create_review sp_add_review u score title content (Some m) None c =
           (Inl Error, c\<lparr>sent := sent c @ [Callproc ''sp_add_review'', Rollback]\<rparr>) \<and>
         data (snd (create_review sp_add_review u score title content (Some m) None c)) = data c"
proof -
  from assms have "has_review (data c) u (Some m) None"
    by (auto simp: has_review_def)
  then have "sp_add_review (u, Some m, None, score, title, content) (data c) = Inl Error"
    by (simp add: sp_add_review_def)
  then show ?thesis
    by (simp add: create_review_def execute_procedure_def)
qed

text \<open>
  In the catalog example user 2 reviews Heat: the first call adds review 7, the second
  fails and leaves the tables as the first left them.
\<close>

theorem second_review_fails_witness:
  "create_review sp_add_review 2 (Finite 7) ''first'' None (Some 2) None conn_catalog =
     (Inr True,
      \<lparr>data = db_catalog\<lparr>Reviews := Reviews db_catalog @
          [\<lparr>Review_ID = 7, r_User_ID = 2, r_Movie_ID = Some 2, r_Show_ID = None, Score = 7,
            r_Title = ''first'', Content = None\<rparr>]\<rparr>,
       sent = [Callproc ''sp_add_review'', Commit]\<rparr>) \<and>
   create_review sp_add_review 2 (Finite 3) ''second'' None (Some 2) None
     \<lparr>data = db_catalog\<lparr>Reviews := Reviews db_catalog @
          [\<lparr>Review_ID = 7, r_User_ID = 2, r_Movie_ID = Some 2, r_Show_ID = None, Score = 7,
            r_Title = ''first'', Content = None\<rparr>]\<rparr>,
       sent = [Callproc ''sp_add_review'', Commit]\<rparr> =
     (Inl Error,
      \<lparr>data = db_catalog\<lparr>Reviews := Reviews db_catalog @
          [\<lparr>Review_ID = 7, r_User_ID = 2, r_Movie_ID = Some 2, r_Show_ID = None, Score = 7,
            r_Title = ''first'', Content = None\<rparr>]\<rparr>,
       sent = [Callproc ''sp_add_review'', Commit, Callproc ''sp_add_review'', Rollback]\<rparr>)"
proof -
  let ?c1 = "\<lparr>data = db_catalog\<lparr>Reviews := Reviews db_catalog @
          [\<lparr>Review_ID = 7, r_User_ID = 2, r_Movie_ID = Some 2, r_Show_ID = None, Score = 7,
            r_Title = ''first'', Content = None\<rparr>]\<rparr>,
       sent = [Callproc ''sp_add_review'', Commit]\<rparr>"
  have a: "create_review sp_add_review 2 (Finite 7) ''first'' None (Some 2) None conn_catalog =
     (Inr True, ?c1)"
    by code_simp
  have "\<exists>r \<in> set (Reviews (data ?c1)). r_User_ID r = 2 \<and> r_Movie_ID r = Some 2"
    by simp
  from second_review_fails [OF this, of "Finite 3" "''second''" None]
  have "create_review sp_add_review 2 (Finite 3) ''second'' None (Some 2) None ?c1 =
     (Inl Error, ?c1\<lparr>sent := sent ?c1 @ [Callproc ''sp_add_review'', Rollback]\<rparr>)"
    by simp
  with a show ?thesis by simp
qed

subsection \<open>Registration with a known email\<close>

text \<open>
  Claim C9. \<open>register\<close> never changes the session. A registration with an email that a
  stored user has is answered with the registration form and one error message; the
  tables are unchanged and nothing but the \<^verbatim>\<open>SELECT\<close> for the email is sent, so
  \<^verbatim>\<open>sp_add_user\<close> is not called. When the other fields pass the validation, the message
  is that the email is already registered.
\<close>

theorem register_duplicate_email:
  "fst (snd (register sp seq s req c)) = s \<and>
   (request_method req = POST \<and> form_email req = Some email \<and>
    (\<exists>u \<in> set (User (data c)). seq (Email u) email) \<longrightarrow>
      response (fst (register sp seq s req c)) = Render_template ''register.html'' \<and>
      (\<exists>msg. flashed (fst (register sp seq s req c)) = [(Text msg, ''error'')]) \<and>
      data (snd (snd (register sp seq s req c))) = data c \<and>
      (sent (snd (snd (register sp seq s req c))) = sent c \<or>
       sent (snd (snd (register sp seq s req c))) = sent c @ [Execute (SELECT_User email)])) \<and>
   (request_method req = POST \<and> form_email req = Some email \<and>
    (\<exists>u \<in> set (User (data c)). seq (Email u) email) \<and>
    form_name req = Some name \<and> name \<noteq> [] \<and> email \<noteq> [] \<and>
    form_password req = Some password \<and> password \<noteq> [] \<and>
    form_confirm_password req = Some password \<and>
    (\<forall>age. form_age req = Some age \<longrightarrow> age = 0 \<or> (13 \<le> age \<and> age \<le> 120)) \<longrightarrow>
      register sp seq s req c =
        (register_error ''Email already registered.'', s,
         execute_query_read (SELECT_User email) c))"
proof (intro conjI impI)
  show "fst (snd (register sp seq s req c)) = s"
    by (rule register_session)
next
  assume a: "request_method req = POST \<and> form_email req = Some email \<and>
    (\<exists>u \<in> set (User (data c)). seq (Email u) email)"
  then have d: "register sp seq s req c = (register_error ''Please fill in all required fields.'', s, c) \<or>
         register sp seq s req c = (register_error ''Passwords do not match.'', s, c) \<or>
         register sp seq s req c = (register_error ''Age must be between 13 and 120.'', s, c) \<or>
         register sp seq s req c =
           (register_error ''Email already registered.'', s,
            execute_query_read (SELECT_User email) c)"
    using register_existing_email [of req email c seq sp s] by blast
  from d show "response (fst (register sp seq s req c)) = Render_template ''register.html''"
    by (auto simp: register_error_def)
  from d show "\<exists>msg. flashed (fst (register sp seq s req c)) = [(Text msg, ''error'')]"
    by (auto simp: register_error_def)
  from d show "data (snd (snd (register sp seq s req c))) = data c"
    by (auto simp: execute_query_read_def)
  from d show "sent (snd (snd (register sp seq s req c))) = sent c \<or>
       sent (snd (snd (register sp seq s req c))) = sent c @ [Execute (SELECT_User email)]"
    by (auto simp: execute_query_read_def)
next
  assume a: "request_method req = POST \<and> form_email req = Some email \<and>
    (\<exists>u \<in> set (User (data c)). seq (Email u) email) \<and>
    form_name req = Some name \<and> name \<noteq> [] \<and> email \<noteq> [] \<and>
    form_password req = Some password \<and> password \<noteq> [] \<and>
    form_confirm_password req = Some password \<and>
    (\<forall>age. form_age req = Some age \<longrightarrow> age = 0 \<or> (13 \<le> age \<and> age \<le> 120))"
  then obtain u where
    "get_user_by_email seq email c = (Some u, execute_query_read (SELECT_User email) c)"
    using get_user_by_email_found [of c seq email] by blast
  with a show "register sp seq s req c =
        (register_error ''Email already registered.'', s,
         execute_query_read (SELECT_User email) c)"
    by (auto simp: register_def nonzero_def split: option.splits)
qed

text \<open>
  In the catalog example the email of Alice is taken. With another email the same form
  is accepted, and the session is still the anonymous one.
\<close>

theorem register_duplicate_email_witness:
  "register sp_add_user_stub (=) session_anonymous post_register_alice conn_catalog =
     (register_error ''Email already registered.'', session_anonymous,
      \<lparr>data = db_catalog, sent = [Execute (SELECT_User ''alice@example.org'')]\<rparr>) \<and>
   fst (register sp_add_user_stub (=) session_anonymous
          (post_register_alice\<lparr>form_email := Some ''bob@example.org''\<rparr>) conn_catalog) =
     \<lparr>response = Redirect Login,
      flashed = [(Text ''Registration successful! Please log in.'', ''success'')]\<rparr> \<and>
   fst (snd (register sp_add_user_stub (=) session_anonymous
          (post_register_alice\<lparr>form_email := Some ''bob@example.org''\<rparr>) conn_catalog)) =
     session_anonymous"
proof -
  have e: "\<exists>u \<in> set (User (data conn_catalog)). Email u = ''alice@example.org''"
    by code_simp
  have p: "request_method post_register_alice = POST \<and>
           form_email post_register_alice = Some ''alice@example.org''"
    by (simp add: post_register_alice_def)
  have q: "form_name post_register_alice = Some ''Alice'' \<and>
           form_password post_register_alice = Some ''secret'' \<and>
           form_confirm_password post_register_alice = Some ''secret'' \<and>
           form_age post_register_alice = Some 30"
    by (simp add: post_register_alice_def)
  have x: "execute_query_read (SELECT_User ''alice@example.org'') conn_catalog =
      \<lparr>data = db_catalog, sent = [Execute (SELECT_User ''alice@example.org'')]\<rparr>"
    by (simp add: execute_query_read_def conn_catalog_def)
  from register_duplicate_email [of sp_add_user_stub "(=)" session_anonymous
      post_register_alice conn_catalog "''alice@example.org''" "''Alice''" "''secret''"] e p q x
  have a: "register sp_add_user_stub (=) session_anonymous post_register_alice conn_catalog =
     (register_error ''Email already registered.'', session_anonymous,
      \<lparr>data = db_catalog, sent = [Execute (SELECT_User ''alice@example.org'')]\<rparr>)"
    by simp
  have b: "fst (register sp_add_user_stub (=) session_anonymous
          (post_register_alice\<lparr>form_email := Some ''bob@example.org''\<rparr>) conn_catalog) =
     \<lparr>response = Redirect Login,
      flashed = [(Text ''Registration successful! Please log in.'', ''success'')]\<rparr>"
    by code_simp
  from register_duplicate_email [of sp_add_user_stub "(=)" session_anonymous
      "post_register_alice\<lparr>form_email := Some ''bob@example.org''\<rparr>" conn_catalog]
  have c: "fst (snd (register sp_add_user_stub (=) session_anonymous
          (post_register_alice\<lparr>form_email := Some ''bob@example.org''\<rparr>) conn_catalog)) =
     session_anonymous"
    by blast
  from a b c show ?thesis by simp
qed

subsection \<open>Recommendations from the stored preferences\<close>

text \<open>
  Claim C1 says that candidates with equal preference score and equal average rating
  are ordered by their review count. The statement orders by \<^verbatim>\<open>COUNT(r.Review_ID)\<close> over
  the joined rows, where every review row is repeated once for each preference row of
  the user that matches a genre of the movie. In the example Alpha and Beta both have
  preference score 5 and average 8; Alpha has one review and Beta two, and Alpha comes
  first, with a \<open>review_count\<close> of 3.
\<close>

theorem movie_recommendations_count_inflated:
  "get_movie_recommendations db_genres 1 10 =
     Inr [\<lparr>Movie_ID = 1, Title = ''Alpha'', Year = 2001, review_count = 3,
           avg_rating = Some 8, max_preference_score = 5\<rparr>,
          \<lparr>Movie_ID = 2, Title = ''Beta'', Year = 2002, review_count = 2,
           avg_rating = Some 8, max_preference_score = 5\<rparr>] \<and>
   preference_score db_genres 1 1 = 5 \<and> preference_score db_genres 1 2 = 5 \<and>
   movie_average_rating db_genres 1 = Some 8 \<and> movie_average_rating db_genres 2 = Some 8 \<and>
   movie_review_count db_genres 1 = 1 \<and> movie_review_count db_genres 2 = 2"
  by code_simp

theorem movie_recommendations_count_inflated_witness:
  "get_movie_recommendations db_genres 1 10 \<noteq> Inl Error \<and>
   movie_review_count db_genres 1 < movie_review_count db_genres 2"
  using movie_recommendations_count_inflated by simp

section \<open>Further properties\<close>

subsection \<open>What the preference ranking guarantees\<close>

text \<open>
  \<open>get_movie_recommendations\<close> fails on a negative limit and otherwise returns the rows
  of the first \<open>limit\<close> movies of a ranking. The ranking holds exactly the movies the
  user has not reviewed. It is in descending order of the largest preference weight the
  user has stored for a genre of the movie (0 without one), then of the movie's average
  rating (movies without a review last), then of the number of joined rows: the review
  count times the number of stored preferences that match, or times 1 when none does.
  So a movie never comes before one with a larger preference score. The columns
  \<open>max_preference_score\<close>, \<open>avg_rating\<close> and \<open>review_count\<close> of a row are these three
  values, the average rounded to two decimals.
\<close>

theorem movie_recommendations_ranking:
  "get_movie_recommendations db u n =
     (if n < 0 then Inl Error
      else Inr (map (recommendation_select db u) (take (nat n) (recommendation_ranking db u)))) \<and>
   set (recommendation_ranking db u) = {m \<in> set (Movie db). \<not> has_reviewed db u (Movie_ID m)} \<and>
   sorted_wrt
     (\<lambda>a b.
        (preference_score db u (Movie_ID a), movie_average_rating db (Movie_ID a),
         movie_review_count db (Movie_ID a) * max 1 (length (genre_preferences db u (Movie_ID a))))
        \<ge>
        (preference_score db u (Movie_ID b), movie_average_rating db (Movie_ID b),
         movie_review_count db (Movie_ID b) * max 1 (length (genre_preferences db u (Movie_ID b)))))
     (recommendation_ranking db u) \<and>
   (\<forall>i j. i < j \<and> j < length (recommendation_ranking db u) \<longrightarrow>
      preference_score db u (Movie_ID (recommendation_ranking db u ! i)) \<ge>
      preference_score db u (Movie_ID (recommendation_ranking db u ! j))) \<and>
   max_preference_score (recommendation_select db u m) = preference_score db u (Movie_ID m) \<and>
   avg_rating (recommendation_select db u m) =
     map_option round2 (movie_average_rating db (Movie_ID m)) \<and>
   review_count (recommendation_select db u m) =
     movie_review_count db (Movie_ID m) * max 1 (length (genre_preferences db u (Movie_ID m)))"
proof (intro conjI allI impI)
  show "get_movie_recommendations db u n =
     (if n < 0 then Inl Error
      else Inr (map (recommendation_select db u) (take (nat n) (recommendation_ranking db u))))"
    by (simp add: get_movie_recommendations_def LIMIT_def)
  show "set (recommendation_ranking db u) =
      {m \<in> set (Movie db). \<not> has_reviewed db u (Movie_ID m)}"
    by (rule set_recommendation_ranking)
  show "sorted_wrt
     (\<lambda>a b.
        (preference_score db u (Movie_ID a), movie_average_rating db (Movie_ID a),
         movie_review_count db (Movie_ID a) * max 1 (length (genre_preferences db u (Movie_ID a))))
        \<ge>
        (preference_score db u (Movie_ID b), movie_average_rating db (Movie_ID b),
         movie_review_count db (Movie_ID b) * max 1 (length (genre_preferences db u (Movie_ID b)))))
     (recommendation_ranking db u)"
    using sorted_recommendation_ranking [of db u] by (simp only: recommendation_key_eq)
  show "max_preference_score (recommendation_select db u m) = preference_score db u (Movie_ID m)"
    by (simp add: recommendation_select_def rec_max_preference_eq)
  show "avg_rating (recommendation_select db u m) =
     map_option round2 (movie_average_rating db (Movie_ID m))"
    by (simp add: recommendation_select_def rec_avg_eq ROUND2_def)
  show "review_count (recommendation_select db u m) =
     movie_review_count db (Movie_ID m) * max 1 (length (genre_preferences db u (Movie_ID m)))"
    by (simp add: recommendation_select_def rec_count_eq)
next
  fix i j assume "i < j \<and> j < length (recommendation_ranking db u)"
  then show "preference_score db u (Movie_ID (recommendation_ranking db u ! i)) \<ge>
      preference_score db u (Movie_ID (recommendation_ranking db u ! j))"
    using recommendation_ranking_preference by blast
qed

text \<open>
  In the example with three preferences for the genres of Alpha, its one review is
  counted three times.
\<close>

theorem movie_recommendations_ranking_witness:
  "map Movie_ID (recommendation_ranking db_genres 1) = [1, 2] \<and>
   get_movie_recommendations db_genres 1 1 =
     Inr [\<lparr>Movie_ID = 1, Title = ''Alpha'', Year = 2001, review_count = 3,
           avg_rating = Some 8, max_preference_score = 5\<rparr>] \<and>
   get_movie_recommendations db_genres 1 (- 1) = Inl Error \<and>
   genre_preferences db_genres 1 1 = [5, 3, 1] \<and> genre_preferences db_genres 1 2 = [5] \<and>
   preference_score db_genres 1 1 = 5"
proof -
  have r: "recommendation_ranking db_genres 1 =
      [\<lparr>Movie_ID = 1, Title = ''Alpha'', Year = 2001\<rparr>,
       \<lparr>Movie_ID = 2, Title = ''Beta'', Year = 2002\<rparr>]"
    by code_simp
  have s: "recommendation_select db_genres 1 \<lparr>Movie_ID = 1, Title = ''Alpha'', Year = 2001\<rparr> =
      \<lparr>Movie_ID = 1, Title = ''Alpha'', Year = 2001, review_count = 3,
       avg_rating = Some 8, max_preference_score = 5\<rparr>"
    by code_simp
  have g: "genre_preferences db_genres 1 1 = [5, 3, 1]" "genre_preferences db_genres 1 2 = [5]"
    by code_simp+
  from movie_recommendations_ranking [of db_genres 1 1] r s
  have a: "get_movie_recommendations db_genres 1 1 =
     Inr [\<lparr>Movie_ID = 1, Title = ''Alpha'', Year = 2001, review_count = 3,
           avg_rating = Some 8, max_preference_score = 5\<rparr>]"
    by simp
  from movie_recommendations_ranking [of db_genres 1 "- 1"]
  have b: "get_movie_recommendations db_genres 1 (- 1) = Inl Error"
    by simp
  from movie_recommendations_ranking [of db_genres 1 1 "\<lparr>Movie_ID = 1, Title = ''Alpha'', Year = 2001\<rparr>"] s
  have c: "preference_score db_genres 1 1 = 5"
    by simp
  from r a b c g show ?thesis by simp
qed

subsection \<open>What the validation of a new review rejects\<close>

text \<open>
  A \<^verbatim>\<open>POST\<close> to \<open>add_review\<close> is answered with a redirect and one error message, with
  nothing sent to the store and the session unchanged, when the user is not logged in,
  when both or neither of movie and show are given, when the title is missing or
  empty, when the score is missing or 0, and when the score is a number below 0 or above
  10 or an infinity.
\<close>

theorem add_review_rejects_invalid:
  assumes "request_method req = POST"
    and "user_id s = None \<or>
         truthy_int (parse_id (form_movie_id req)) = truthy_int (parse_id (form_show_id req)) \<or>
         form_title req = None \<or> form_title req = Some [] \<or> form_score req = None \<or>
         form_score req = Some (Finite 0) \<or> form_score req = Some PosInf \<or>
         form_score req = Some NegInf \<or>
         (\<exists>q. form_score req = Some (Finite q) \<and> (q < 0 \<or> 10 < q))"
  shows "\<exists>target msg.
           login_required (add_review sp) s req c =
             (\<lparr>response = Redirect target, flashed = [(Text msg, ''error'')]\<rparr>, s, c)"
proof (cases "user_id s")
  case None
  then show ?thesis using add_review_not_logged_in by blast
next
  case (Some uid)
  with assms(2) consider
      "truthy_int (parse_id (form_movie_id req)) = truthy_int (parse_id (form_show_id req))"
    | "form_title req = None \<or> form_title req = Some [] \<or> form_score req = None \<or>
         form_score req = Some (Finite 0) \<or> form_score req = Some PosInf \<or>
         form_score req = Some NegInf \<or>
         (\<exists>q. form_score req = Some (Finite q) \<and> (q < 0 \<or> 10 < q))"
    by auto
  then obtain msg where "add_review sp s req c = (reject req msg, s, c)"
    using add_review_targets [OF assms(1)] add_review_fields [OF assms(1)] by metis
  with Some show ?thesis
    by (auto simp: login_required_def reject_def)
qed

text \<open>The score 11 is rejected; the score 8 is accepted.\<close>

theorem add_review_rejects_invalid_witness:
  "login_required (add_review sp_add_review) session_user1 post_review_11 conn_catalog =
     (\<lparr>response = Redirect Home,
       flashed = [(Text ''Score must be between 0 and 10.'', ''error'')]\<rparr>,
      session_user1, conn_catalog) \<and>
   fst (login_required (add_review sp_add_review) session_user1 post_review_8 conn_catalog) =
     \<lparr>response = Redirect (Movie_detail 1),
      flashed = [(Text ''Review added successfully!'', ''success'')]\<rparr>"
proof -
  have p: "request_method post_review_11 = POST" "form_score post_review_11 = Some (Finite 11)"
    by (simp_all add: post_review_11_def post_review_nan_def)
  have a: "fst (login_required (add_review sp_add_review) session_user1 post_review_11 conn_catalog) =
     \<lparr>response = Redirect Home,
       flashed = [(Text ''Score must be between 0 and 10.'', ''error'')]\<rparr>"
    by code_simp
  from add_review_rejects_invalid [of post_review_11 session_user1 sp_add_review conn_catalog] p
  obtain target msg where
    "login_required (add_review sp_add_review) session_user1 post_review_11 conn_catalog =
       (\<lparr>response = Redirect target, flashed = [(Text msg, ''error'')]\<rparr>, session_user1, conn_catalog)"
    by auto
  with a have b: "login_required (add_review sp_add_review) session_user1 post_review_11 conn_catalog =
     (\<lparr>response = Redirect Home,
       flashed = [(Text ''Score must be between 0 and 10.'', ''error'')]\<rparr>,
      session_user1, conn_catalog)"
    by simp
  have c: "fst (login_required (add_review sp_add_review) session_user1 post_review_8 conn_catalog) =
     \<lparr>response = Redirect (Movie_detail 1),
      flashed = [(Text ''Review added successfully!'', ''success'')]\<rparr>"
    by code_simp
  from b c show ?thesis by simp
qed

subsection \<open>What the friend ranking guarantees\<close>

text \<open>
  \<open>get_friend_recommendations\<close> fails on a negative limit and otherwise returns the first \<open>limit\<close> rows of a ranking with these properties. Its rows
  are movies of the table, and a movie has a row exactly when a friend of the user has
  reviewed it with a score of at least 7.0 and the user has not reviewed it. The
  \<open>friend_likes\<close> of a row is the number of distinct friends who gave the movie at least
  7.0. The rows are in descending order of \<open>friend_likes\<close>, and rows with equal
  \<open>friend_likes\<close> in descending order of \<open>avg_rating\<close>. When every pair of friends is
  stored once, \<open>avg_rating\<close> is the average, rounded to two decimals, of the scores of at
  least 7.0 that the user's friends gave the movie.
\<close>

theorem friend_recommendations_ranking:
  "get_friend_recommendations db u n =
     (if n < 0 then Inl Error else Inr (take (nat n) (friend_ranking db u))) \<and>
   (\<forall>row \<in> set (friend_ranking db u). \<exists>m \<in> set (Movie db). Movie_ID row = Movie_ID m) \<and>
   (\<forall>m \<in> set (Movie db).
      (\<exists>row \<in> set (friend_ranking db u). Movie_ID row = Movie_ID m) \<longleftrightarrow>
      friends_who_liked db u (Movie_ID m) \<noteq> {} \<and> \<not> has_reviewed db u (Movie_ID m)) \<and>
   (\<forall>row \<in> set (friend_ranking db u).
      friend_likes row = card (friends_who_liked db u (Movie_ID row))) \<and>
   (stored_once db \<longrightarrow>
      (\<forall>row \<in> set (friend_ranking db u). avg_rating row = friend_average db u (Movie_ID row))) \<and>
   sorted_wrt (\<lambda>a b. (friend_likes a, avg_rating a) \<ge> (friend_likes b, avg_rating b))
     (friend_ranking db u)"
proof (intro conjI ballI impI)
  show "get_friend_recommendations db u n =
     (if n < 0 then Inl Error else Inr (take (nat n) (friend_ranking db u)))"
    by (simp add: get_friend_recommendations_def LIMIT_def)
next
  fix row assume "row \<in> set (friend_ranking db u)"
  then show "\<exists>m \<in> set (Movie db). Movie_ID row = Movie_ID m"
    by (auto simp: set_friend_ranking friend_candidates_iff)
next
  fix m assume m: "m \<in> set (Movie db)"
  show "(\<exists>row \<in> set (friend_ranking db u). Movie_ID row = Movie_ID m) \<longleftrightarrow>
      friends_who_liked db u (Movie_ID m) \<noteq> {} \<and> \<not> has_reviewed db u (Movie_ID m)"
  proof
    assume "\<exists>row \<in> set (friend_ranking db u). Movie_ID row = Movie_ID m"
    then obtain m' where "m' \<in> set (friend_candidates db u)" "Movie_ID m' = Movie_ID m"
      by (auto simp: set_friend_ranking)
    then show "friends_who_liked db u (Movie_ID m) \<noteq> {} \<and> \<not> has_reviewed db u (Movie_ID m)"
      by (simp add: friend_candidates_iff)
  next
    assume "friends_who_liked db u (Movie_ID m) \<noteq> {} \<and> \<not> has_reviewed db u (Movie_ID m)"
    with m have "m \<in> set (friend_candidates db u)"
      by (simp add: friend_candidates_iff)
    then have "friend_select db u m \<in> set (friend_ranking db u)"
      by (simp add: set_friend_ranking)
    then show "\<exists>row \<in> set (friend_ranking db u). Movie_ID row = Movie_ID m"
      by (rule rev_bexI) simp
  qed
next
  fix row assume "row \<in> set (friend_ranking db u)"
  then show "friend_likes row = card (friends_who_liked db u (Movie_ID row))"
    by (auto simp: set_friend_ranking friend_likes_select)
next
  fix row assume "stored_once db" "row \<in> set (friend_ranking db u)"
  then show "avg_rating row = friend_average db u (Movie_ID row)"
    by (auto simp: set_friend_ranking avg_rating_select)
next
  show "sorted_wrt (\<lambda>a b. (friend_likes a, avg_rating a) \<ge> (friend_likes b, avg_rating b))
     (friend_ranking db u)"
    by (rule sorted_friend_ranking)
qed

text \<open>
  In the example friend 4 gave Alpha 6.9, which does not count, and liked Gamma, which
  user 1 has reviewed.
\<close>

theorem friend_recommendations_ranking_witness:
  "stored_once db_friends \<and>
   friend_ranking db_friends 1 =
     [\<lparr>Movie_ID = 2, Title = ''Beta'', Year = 2002, review_count = 1,
       avg_rating = Some 8, friend_likes = 1, content_type = ''movie''\<rparr>,
      \<lparr>Movie_ID = 1, Title = ''Alpha'', Year = 2001, review_count = 1,
       avg_rating = Some 7, friend_likes = 1, content_type = ''movie''\<rparr>] \<and>
   get_friend_recommendations db_friends 1 1 =
     Inr [\<lparr>Movie_ID = 2, Title = ''Beta'', Year = 2002, review_count = 1,
           avg_rating = Some 8, friend_likes = 1, content_type = ''movie''\<rparr>] \<and>
   friends_who_liked db_friends 1 1 = {2} \<and>
   friends_who_liked db_friends 1 3 = {4} \<and> has_reviewed db_friends 1 3 \<and>
   friend_average db_friends 1 1 = Some 7 \<and> friend_average db_friends 1 2 = Some 8"
proof -
  have s: "stored_once db_friends" by code_simp
  have r: "friend_ranking db_friends 1 =
     [\<lparr>Movie_ID = 2, Title = ''Beta'', Year = 2002, review_count = 1,
       avg_rating = Some 8, friend_likes = 1, content_type = ''movie''\<rparr>,
      \<lparr>Movie_ID = 1, Title = ''Alpha'', Year = 2001, review_count = 1,
       avg_rating = Some 7, friend_likes = 1, content_type = ''movie''\<rparr>]"
    by code_simp
  have l1: "friends_who_liked db_friends 1 1 = {2}" by code_simp
  have l3: "friends_who_liked db_friends 1 3 = {4}" by code_simp
  have h: "has_reviewed db_friends 1 3" by code_simp
  note t = friend_recommendations_ranking [of db_friends 1 1]
  from t r have g: "get_friend_recommendations db_friends 1 1 =
     Inr [\<lparr>Movie_ID = 2, Title = ''Beta'', Year = 2002, review_count = 1,
           avg_rating = Some 8, friend_likes = 1, content_type = ''movie''\<rparr>]"
    by simp
  from t s r have "friend_average db_friends 1 1 = Some 7 \<and> friend_average db_friends 1 2 = Some 8"
    by simp
  with s r g l1 l3 h show ?thesis by simp
qed

subsection \<open>What the catalog filter returns\<close>

text \<open>
  The rows of \<open>get_movies_filtered\<close> are in ascending order of the title under the
  collation. Every row is a movie of the table, and a movie of the table
  has a row exactly when, if a genre id other than 0 is given, the movie has an
  association to that genre, and, if a non-empty search string \<open>q\<close> is given, its title
  matches the pattern \<^verbatim>\<open>%q%\<close> of \<^verbatim>\<open>LIKE\<close>. For a search string without \<^verbatim>\<open>%\<close>, \<^verbatim>\<open>_\<close> and
  backslash, a title matches the pattern exactly when it contains the search string,
  character by character under the collation.
\<close>

theorem movies_filtered_by_genre_and_pattern:
  "sorted (map (\<lambda>row. weight (Title row))
      (get_movies_filtered ceq weight db genre_id search_query)) \<and>
   (\<forall>row \<in> set (get_movies_filtered ceq weight db genre_id search_query).
      \<exists>m \<in> set (Movie db). Movie_ID row = Movie_ID m \<and> Title row = Title m) \<and>
   (\<forall>m \<in> set (Movie db).
      (\<exists>row \<in> set (get_movies_filtered ceq weight db genre_id search_query).
          Movie_ID row = Movie_ID m \<and> Title row = Title m) \<longleftrightarrow>
      (\<forall>g. genre_id = Some g \<and> g \<noteq> 0 \<longrightarrow> has_genre db (Movie_ID m) g) \<and>
      (\<forall>q. search_query = Some q \<and> q \<noteq> [] \<longrightarrow> LIKE ceq (Title m) (''%'' @ q @ ''%''))) \<and>
   (\<forall>q t. plain q \<longrightarrow> LIKE ceq t (''%'' @ q @ ''%'') = contains ceq t q)"
proof (intro conjI ballI allI impI)
  show "sorted (map (\<lambda>row. weight (Title row))
      (get_movies_filtered ceq weight db genre_id search_query))"
    by (rule sorted_get_movies_filtered)
next
  fix row assume "row \<in> set (get_movies_filtered ceq weight db genre_id search_query)"
  then show "\<exists>m \<in> set (Movie db). Movie_ID row = Movie_ID m \<and> Title row = Title m"
    by (auto simp: set_get_movies_filtered)
next
  fix m assume m: "m \<in> set (Movie db)"
  let ?cond = "(\<forall>g. genre_id = Some g \<and> g \<noteq> 0 \<longrightarrow> has_genre db (Movie_ID m) g) \<and>
      (\<forall>q. search_query = Some q \<and> q \<noteq> [] \<longrightarrow> LIKE ceq (Title m) (''%'' @ q @ ''%''))"
  show "(\<exists>row \<in> set (get_movies_filtered ceq weight db genre_id search_query).
          Movie_ID row = Movie_ID m \<and> Title row = Title m) \<longleftrightarrow> ?cond"
  proof
    assume "\<exists>row \<in> set (get_movies_filtered ceq weight db genre_id search_query).
          Movie_ID row = Movie_ID m \<and> Title row = Title m"
    then obtain m' where "filtered_join ceq db genre_id search_query m' \<noteq> []"
      and "Movie_ID m' = Movie_ID m" "Title m' = Title m"
      by (auto simp: set_get_movies_filtered)
    then show ?cond
      by (simp add: filtered_join_nonempty)
  next
    assume ?cond
    then have "filtered_join ceq db genre_id search_query m \<noteq> []"
      by (simp add: filtered_join_nonempty)
    with m have "filtered_select ceq db genre_id search_query m
        \<in> set (get_movies_filtered ceq weight db genre_id search_query)"
      by (simp add: set_get_movies_filtered)
    then show "\<exists>row \<in> set (get_movies_filtered ceq weight db genre_id search_query).
          Movie_ID row = Movie_ID m \<and> Title row = Title m"
      by (rule rev_bexI) simp
  qed
next
  fix q t assume "plain q"
  then show "LIKE ceq t (''%'' @ q @ ''%'') = contains ceq t q"
    by (rule LIKE_plain_contains)
qed

text \<open>
  In the catalog example Up and Heat have genre 7, and of the two only Heat contains
  an e.
\<close>

theorem movies_filtered_by_genre_and_pattern_witness:
  "map Title (get_movies_filtered (=) id db_catalog (Some 7) (Some ''e'')) = [''Heat''] \<and>
   has_genre db_catalog 2 7 \<and> contains (=) ''Heat'' ''e'' \<and> plain ''e'' \<and>
   LIKE (=) ''Heat'' ''%e%'' \<and>
   sorted (map Title (get_movies_filtered (=) id db_catalog None (Some ''_'')))"
proof -
  have a: "map Title (get_movies_filtered (=) id db_catalog (Some 7) (Some ''e'')) = [''Heat'']"
    by code_simp
  have b: "has_genre db_catalog 2 7" by code_simp
  have c: "contains (=) ''Heat'' ''e''" by code_simp
  have d: "plain ''e''" by code_simp
  from movies_filtered_by_genre_and_pattern [of id "(=)" db_catalog None "Some ''_''"]
  have e: "sorted (map Title (get_movies_filtered (=) id db_catalog None (Some ''_'')))"
    by (simp add: comp_def)
  from movies_filtered_by_genre_and_pattern [of id "(=)" db_catalog None None] c d
  have f: "LIKE (=) ''Heat'' ''%e%''"
    by (metis append_Cons append_Nil)
  from a b c d e f show ?thesis by simp
qed

end
